theory Spec2Isabelle
  imports Main
begin

section \<open>Python strings\<close>

text \<open>
  Strings are lists of characters.  The helpers of this section model the Python
  built-ins that \<^verbatim>\<open>datacomposer.py\<close> calls on strings: truthiness of an
  optional string, \<^verbatim>\<open>sep.join(xs)\<close>, \<^verbatim>\<open>str(i)\<close> for a non-negative
  integer, and \<^verbatim>\<open>s.strip()\<close>.
\<close>

definition NL :: string where
  "NL = [CHR 0x0A]"

text \<open>\<^verbatim>\<open>if x:\<close> on an \<^verbatim>\<open>Optional[str]\<close>: \<^verbatim>\<open>None\<close> and the empty string are falsy.\<close>

fun truthy :: "string option \<Rightarrow> bool" where
  "truthy None = False"
| "truthy (Some s) = (s \<noteq> [])"

text \<open>\<^verbatim>\<open>if b:\<close> on an \<^verbatim>\<open>Optional[bool]\<close>.\<close>

fun truthy_bool :: "bool option \<Rightarrow> bool" where
  "truthy_bool None = False"
| "truthy_bool (Some b) = b"

text \<open>\<^verbatim>\<open>sep.join(xs)\<close>.\<close>

fun str_join :: "string \<Rightarrow> string list \<Rightarrow> string" where
  "str_join sep [] = []"
| "str_join sep [x] = x"
| "str_join sep (x # y # ys) = x @ sep @ str_join sep (y # ys)"

text \<open>\<^verbatim>\<open>str(n)\<close> for \<open>n \<ge> 0\<close>: the decimal digits, most significant first.\<close>

definition digit_char :: "nat \<Rightarrow> char" where
  "digit_char d = char_of (48 + d)"

function str_nat :: "nat \<Rightarrow> string" where
  "str_nat n = (if n < 10 then [digit_char n] else str_nat (n div 10) @ [digit_char (n mod 10)])"
  by pat_completeness auto
termination
  by (relation "measure id") auto

declare str_nat.simps [simp del]

text \<open>Reading a decimal numeral back, used to say which number a placeholder carries.\<close>

definition digit_val :: "char \<Rightarrow> nat" where
  "digit_val c = of_char c - 48"

definition nat_of_digits :: "string \<Rightarrow> nat" where
  "nat_of_digits s = foldl (\<lambda>a c. 10 * a + digit_val c) 0 s"

section \<open>datacomposer: compose_insert\<close>

text \<open>
  \<^verbatim>\<open>[f"${i+1}" for i in range(len(field_names))]\<close>: the loop over \<open>range\<close> as a
  recursion on the counter.
\<close>

fun placeholders_from :: "nat \<Rightarrow> nat \<Rightarrow> string list" where
  "placeholders_from i 0 = []"
| "placeholders_from i (Suc k) = (CHR ''$'' # str_nat (i + 1)) # placeholders_from (Suc i) k"

definition placeholders :: "nat \<Rightarrow> string list" where
  "placeholders n = placeholders_from 0 n"

definition compose_insert :: "string list \<Rightarrow> string \<Rightarrow> string option \<Rightarrow> string" where
  "compose_insert field_names table_name xclause =
     (let fields = str_join '', '' field_names;
          phs = str_join '', '' (placeholders (length field_names));
          sql = ''INSERT INTO '' @ table_name @ '' ('' @ fields @ '') values ('' @ phs @ '')''
      in if truthy xclause then sql @ NL @ the xclause else sql)"

text \<open>
  \<^verbatim>\<open>s.strip()\<close> removes leading and trailing whitespace.  On ASCII text Python's
  \<^verbatim>\<open>str.isspace\<close> holds for the codes 9 to 13, 28 to 31 and 32.
\<close>

definition py_isspace :: "char \<Rightarrow> bool" where
  "py_isspace c = (let n = (of_char c :: nat) in (9 \<le> n \<and> n \<le> 13) \<or> (28 \<le> n \<and> n \<le> 31) \<or> n = 32)"

definition strip :: "string \<Rightarrow> string" where
  "strip s = rev (dropWhile py_isspace (rev (dropWhile py_isspace s)))"

text \<open>\<^verbatim>\<open>f"{x}"\<close> on an \<^verbatim>\<open>Optional[str]\<close>: \<^verbatim>\<open>None\<close> is rendered as the text \<^verbatim>\<open>None\<close>.\<close>

fun py_str :: "string option \<Rightarrow> string" where
  "py_str None = ''None''"
| "py_str (Some s) = s"

section \<open>Python errors\<close>

datatype py_error =
    KeyError string
  | ValueError
  | IndexError
  | AttributeError string
  | TypeError
  | OtherException string

section \<open>str.format with keyword arguments\<close>

text \<open>
  \<^verbatim>\<open>template.format(table_name=..., primary_key=...)\<close>.  The keyword arguments are an
  association list from names to values of type \<^verbatim>\<open>Optional[str]\<close>.  The scan goes
  left to right, as CPython's does: literal text is copied, \<^verbatim>\<open>{{\<close> and \<^verbatim>\<open>}}\<close>
  give one brace, a lone \<^verbatim>\<open>}\<close> or an unclosed \<^verbatim>\<open>{\<close> raises \<^verbatim>\<open>ValueError\<close>, and a
  replacement field \<^verbatim>\<open>{name}\<close> whose name is plain (not empty, not a number, none of
  the characters \<^verbatim>\<open>{ [ . ! :\<close>) is replaced by \<^verbatim>\<open>str\<close> of the keyword's value, or
  raises \<^verbatim>\<open>KeyError\<close> when no such keyword was passed.

  Everything else the format mini-language offers (positional fields, attribute and
  index access, conversions, format specifications) is not interpreted here: from the
  first such field on, the result is whatever the parameter \<open>ext\<close> returns for the
  keyword arguments and the rest of the template.  Every theorem below holds for every
  \<open>ext\<close>, hence for Python's.
\<close>

type_synonym kwargs = "(string \<times> string option) list"

definition is_digit :: "char \<Rightarrow> bool" where
  "is_digit c = (let n = (of_char c :: nat) in 48 \<le> n \<and> n \<le> 57)"

definition plain_key :: "string \<Rightarrow> bool" where
  "plain_key k = (k \<noteq> [] \<and> \<not> list_ex (\<lambda>c. c \<in> set ''{[.!:'') k \<and> \<not> list_all is_digit k)"

definition field_name :: "string \<Rightarrow> string" where
  "field_name cs = takeWhile (\<lambda>x. x \<noteq> CHR ''}'') cs"

definition field_rest :: "string \<Rightarrow> string" where
  "field_rest cs = dropWhile (\<lambda>x. x \<noteq> CHR ''}'') cs"

fun cons_ok :: "char \<Rightarrow> py_error + string \<Rightarrow> py_error + string" where
  "cons_ok c (Inl e) = Inl e"
| "cons_ok c (Inr s) = Inr (c # s)"

fun append_ok :: "string \<Rightarrow> py_error + string \<Rightarrow> py_error + string" where
  "append_ok v (Inl e) = Inl e"
| "append_ok v (Inr s) = Inr (v @ s)"

function py_format :: "(kwargs \<Rightarrow> string \<Rightarrow> py_error + string) \<Rightarrow> kwargs \<Rightarrow> string \<Rightarrow> py_error + string" where
  "py_format ext kw [] = Inr []"
| "py_format ext kw (c # cs) =
     (if c = CHR ''}'' then
        (case cs of
           [] \<Rightarrow> Inl ValueError
         | d # rest \<Rightarrow> if d = CHR ''}'' then cons_ok c (py_format ext kw rest) else Inl ValueError)
      else if c = CHR ''{'' then
        (case cs of
           [] \<Rightarrow> Inl ValueError
         | d # rest \<Rightarrow>
             if d = CHR ''{'' then cons_ok c (py_format ext kw rest)
             else if \<not> plain_key (field_name cs) then ext kw (c # cs)
             else if field_rest cs = [] then Inl ValueError
             else (case map_of kw (field_name cs) of
                     None \<Rightarrow> Inl (KeyError (field_name cs))
                   | Some v \<Rightarrow> append_ok (py_str v) (py_format ext kw (tl (field_rest cs)))))
      else cons_ok c (py_format ext kw cs))"
  by pat_completeness auto
termination
proof (relation "measure (\<lambda>(ext, kw, s). length s)")
  fix ext :: "kwargs \<Rightarrow> string \<Rightarrow> py_error + string" and kw :: kwargs and c :: char and cs :: string
  have "length (tl (field_rest cs)) \<le> length cs"
    using length_dropWhile_le [of "\<lambda>x. x \<noteq> CHR ''}''" cs] by (simp add: field_rest_def)
  then show "((ext, kw, tl (field_rest cs)), ext, kw, c # cs) \<in> measure (\<lambda>(ext, kw, s). length s)"
    by simp
qed auto

declare py_format.simps [simp del]

section \<open>datacomposer: FieldMap and TableSpec\<close>

text \<open>
  The dataclass \<^verbatim>\<open>FieldMap\<close>.  The fields \<^verbatim>\<open>primary_key\<close> and \<^verbatim>\<open>default\<close> carry a
  suffix here: the first is also a field of \<^verbatim>\<open>TableSpec\<close>, the second is a constant
  of HOL.  \<open>'v\<close> is the type of the values \<^verbatim>\<open>convert\<close> maps.
\<close>

record 'v FieldMap =
  in_name :: string
  data_type :: "string option"
  column_name :: "string option"
  primary_key_f :: "bool option"
  keep :: "bool option"
  default_f :: "string option"
  convert :: "('v \<Rightarrow> 'v) option"
  comment :: "string option"

definition null_convert :: "'v \<Rightarrow> 'v" where
  "null_convert input = input"

text \<open>The constructor call \<^verbatim>\<open>FieldMap(in_name, data_type)\<close> with the dataclass defaults.\<close>

definition FieldMap2 :: "string \<Rightarrow> string \<Rightarrow> 'v FieldMap" where
  "FieldMap2 n ty = \<lparr>in_name = n, data_type = Some ty, column_name = None,
     primary_key_f = Some False, keep = Some True, default_f = None,
     convert = Some null_convert, comment = None\<rparr>"

definition FieldMap1 :: "string \<Rightarrow> 'v FieldMap" where
  "FieldMap1 n = FieldMap2 n ''VARCHAR''"

text \<open>The comprehension filter \<^verbatim>\<open>for f in fm if f.keep\<close>.\<close>

definition kept :: "'v FieldMap list \<Rightarrow> 'v FieldMap list" where
  "kept fm = filter (\<lambda>f. truthy_bool (keep f)) fm"

definition get_in_names :: "'v FieldMap list \<Rightarrow> string list" where
  "get_in_names fm = map in_name (kept fm)"

text \<open>\<^verbatim>\<open>f.column_name if f.column_name else f.in_name\<close>\<close>

definition effective_name :: "'v FieldMap \<Rightarrow> string" where
  "effective_name f = (if truthy (column_name f) then the (column_name f) else in_name f)"

definition get_column_names :: "'v FieldMap list \<Rightarrow> string list" where
  "get_column_names fm = map effective_name (kept fm)"

section \<open>datacomposer: compose_create\<close>

text \<open>
  One element of the list comprehension of \<^verbatim>\<open>compose_create\<close>: the two adjacent
  f-strings are concatenated, then stripped.
\<close>

definition field_desc :: "'v FieldMap \<Rightarrow> string" where
  "field_desc f =
     strip (effective_name f @ '' '' @ py_str (data_type f) @ '' ''
            @ (case default_f f of None \<Rightarrow> [] | Some d \<Rightarrow> d))"

text \<open>
  The loop \<^verbatim>\<open>for xsql in extra_sql: clauses.append(xsql.format(...))\<close>.  The handler
  around it prints and re-raises, so the first error is the function's result (what
  \<^verbatim>\<open>print\<close> writes is left out).
\<close>

fun append_extra ::
  "(string \<Rightarrow> py_error + string) \<Rightarrow> string list \<Rightarrow> string list \<Rightarrow> py_error + string list" where
  "append_extra fmt clauses [] = Inr clauses"
| "append_extra fmt clauses (xsql # rest) =
     (case fmt xsql of
        Inl e \<Rightarrow> Inl e
      | Inr s \<Rightarrow> append_extra fmt (clauses @ [s]) rest)"

definition format_kwargs :: "string \<Rightarrow> string option \<Rightarrow> kwargs" where
  "format_kwargs table_name primary_key =
     [(''table_name'', Some table_name), (''primary_key'', primary_key)]"

definition compose_clauses ::
  "(kwargs \<Rightarrow> string \<Rightarrow> py_error + string) \<Rightarrow> string \<Rightarrow> 'v FieldMap list \<Rightarrow> string option
     \<Rightarrow> string list option \<Rightarrow> py_error + string list" where
  "compose_clauses ext table_name flds primary_key extra_sql =
     (let fdesc = str_join ('','' @ NL) (map field_desc (kept flds));
          clauses0 = [''CREATE TABLE IF NOT EXISTS '' @ table_name @ '' ('' @ NL @ fdesc];
          clauses1 = (if truthy primary_key
                      then clauses0 @ ['', PRIMARY KEY('' @ the primary_key @ '')'']
                      else clauses0);
          clauses2 = clauses1 @ ['');'']
      in case extra_sql of
           None \<Rightarrow> Inr clauses2
         | Some xs \<Rightarrow>
             if xs = [] then Inr clauses2
             else append_extra (py_format ext (format_kwargs table_name primary_key)) clauses2 xs)"

definition compose_create ::
  "(kwargs \<Rightarrow> string \<Rightarrow> py_error + string) \<Rightarrow> string \<Rightarrow> 'v FieldMap list \<Rightarrow> string option
     \<Rightarrow> string list option \<Rightarrow> py_error + string" where
  "compose_create ext table_name flds primary_key extra_sql =
     (case compose_clauses ext table_name flds primary_key extra_sql of
        Inl e \<Rightarrow> Inl e
      | Inr clauses \<Rightarrow> Inr (str_join NL clauses))"


section \<open>amber_data: the hypertable template\<close>

text \<open>
  \<open>QUOTE\<close> is the apostrophe.  The template is written in the source as two adjacent
  string literals.
\<close>

definition QUOTE :: string where
  "QUOTE = [CHR 0x27]"

definition DEFAULT_HYPERTABLE :: string where
  "DEFAULT_HYPERTABLE =
     ''SELECT create_hypertable('' @ QUOTE @ ''{table_name}'' @ QUOTE @ '', ''
       @ QUOTE @ ''{primary_key}'' @ QUOTE @ '', '' @ ''if_not_exists => TRUE);''"

section \<open>Tabular data\<close>

text \<open>
  The part of pandas the repository uses, on frames as \<^verbatim>\<open>to_timeseries\<close> builds them
  (from a list of JSON records, so column labels are unique and row labels are the
  positions in the fetch).  A cell is null (\<^verbatim>\<open>NaN\<close>, \<^verbatim>\<open>NaT\<close>, \<^verbatim>\<open>None\<close>), a string, an
  integer, a timestamp or a time difference (both in nanoseconds, as pandas stores
  them), or a value of some other kind \<open>'x\<close> (floats, price ranges).  A row carries
  its label and its cells by column, in column order.
\<close>

datatype 'x cell = Null | Str string | Num int | Time int | Delta int | Other 'x

type_synonym 'x row = "nat \<times> (string \<times> 'x cell) list"

record 'x DataFrame =
  columns :: "string list"
  rows :: "'x row list"

text \<open>\<^verbatim>\<open>df.empty\<close>: some axis has length 0.  \<^verbatim>\<open>len(df)\<close>: the number of rows.\<close>

definition df_empty :: "'x DataFrame \<Rightarrow> bool" where
  "df_empty df = (rows df = [] \<or> columns df = [])"

definition df_len :: "'x DataFrame \<Rightarrow> nat" where
  "df_len df = length (rows df)"

text \<open>The cell of a row under a column label.\<close>

definition cell_of :: "'x row \<Rightarrow> string \<Rightarrow> 'x cell" where
  "cell_of r c = (case map_of (snd r) c of None \<Rightarrow> Null | Some v \<Rightarrow> v)"

text \<open>\<^verbatim>\<open>df.name\<close>: the column as a list of cells, \<^verbatim>\<open>AttributeError\<close> without such a column.\<close>

definition getattr_col :: "'x DataFrame \<Rightarrow> string \<Rightarrow> py_error + 'x cell list" where
  "getattr_col df name =
     (if name \<in> set (columns df) then Inr (map (\<lambda>r. cell_of r name) (rows df))
      else Inl (AttributeError name))"

text \<open>
  \<^verbatim>\<open>df.columns.intersection(names)\<close>: the labels of the frame that are among the
  names, in the frame's order.
\<close>

definition columns_intersection :: "string list \<Rightarrow> string list \<Rightarrow> string list" where
  "columns_intersection cols names = filter (\<lambda>c. c \<in> set names) cols"

text \<open>Projection of a row to a set of column labels.\<close>

definition project_row :: "string list \<Rightarrow> 'x row \<Rightarrow> 'x row" where
  "project_row cols r = (fst r, filter (\<lambda>kv. fst kv \<in> set cols) (snd r))"

text \<open>\<^verbatim>\<open>df.loc[mask, cols]\<close> for a boolean mask aligned with the rows and labels of the frame.\<close>

definition loc :: "'x DataFrame \<Rightarrow> bool list \<Rightarrow> string list \<Rightarrow> 'x DataFrame" where
  "loc df msk cols =
     \<lparr>columns = cols,
      rows = map (project_row cols) (map snd (filter fst (zip msk (rows df))))\<rparr>"

text \<open>\<^verbatim>\<open>of.iloc[[-1]]\<close> and \<^verbatim>\<open>of.iloc[[0]]\<close>: out of bounds on a frame without rows.\<close>

definition iloc_last :: "'x DataFrame \<Rightarrow> py_error + 'x DataFrame" where
  "iloc_last df = (if rows df = [] then Inl IndexError else Inr (df\<lparr>rows := [last (rows df)]\<rparr>))"

definition iloc_first :: "'x DataFrame \<Rightarrow> py_error + 'x DataFrame" where
  "iloc_first df = (if rows df = [] then Inl IndexError else Inr (df\<lparr>rows := [hd (rows df)]\<rparr>))"

text \<open>
  \<^verbatim>\<open>of[name] = values\<close>: replaces the column where it stands, or adds it as the last
  one.  The values are aligned with the rows.
\<close>

definition set_cell :: "string \<Rightarrow> 'x cell \<Rightarrow> 'x row \<Rightarrow> 'x row" where
  "set_cell name v r =
     (fst r, if name \<in> fst ` set (snd r)
             then map (\<lambda>kv. if fst kv = name then (name, v) else kv) (snd r)
             else snd r @ [(name, v)])"

definition set_column :: "'x DataFrame \<Rightarrow> string \<Rightarrow> 'x cell list \<Rightarrow> 'x DataFrame" where
  "set_column df name vs =
     \<lparr>columns = (if name \<in> set (columns df) then columns df else columns df @ [name]),
      rows = map (\<lambda>(v, r). set_cell name v r) (zip vs (rows df))\<rparr>"

text \<open>
  \<^verbatim>\<open>a - b\<close> on two timestamp columns and \<^verbatim>\<open>.dt.seconds\<close> on the difference.  A
  difference of timestamps is a \<^verbatim>\<open>Timedelta\<close>; a missing timestamp gives a missing
  difference.  \<^verbatim>\<open>Timedelta.seconds\<close> is the seconds component of the normalised
  (days, seconds, microseconds, nanoseconds) form, at least 0 and less than one day.
\<close>

fun sub_cell :: "'x cell \<Rightarrow> 'x cell \<Rightarrow> py_error + 'x cell" where
  "sub_cell (Time a) (Time b) = Inr (Delta (a - b))"
| "sub_cell (Time a) Null = Inr Null"
| "sub_cell Null (Time b) = Inr Null"
| "sub_cell Null Null = Inr Null"
| "sub_cell _ _ = Inl TypeError"

fun sub_cells :: "'x cell list \<Rightarrow> 'x cell list \<Rightarrow> py_error + 'x cell list" where
  "sub_cells (a # as) (b # bs) =
     (case sub_cell a b of
        Inl e \<Rightarrow> Inl e
      | Inr d \<Rightarrow> (case sub_cells as bs of Inl e \<Rightarrow> Inl e | Inr ds \<Rightarrow> Inr (d # ds)))"
| "sub_cells _ _ = Inr []"

definition td_seconds :: "int \<Rightarrow> int" where
  "td_seconds ns = (ns div 1000000000) mod 86400"

fun dt_seconds_cell :: "'x cell \<Rightarrow> py_error + 'x cell" where
  "dt_seconds_cell (Delta d) = Inr (Num (td_seconds d))"
| "dt_seconds_cell Null = Inr Null"
| "dt_seconds_cell _ = Inl (AttributeError ''dt'')"

fun dt_seconds :: "'x cell list \<Rightarrow> py_error + 'x cell list" where
  "dt_seconds [] = Inr []"
| "dt_seconds (d # ds) =
     (case dt_seconds_cell d of
        Inl e \<Rightarrow> Inl e
      | Inr s \<Rightarrow> (case dt_seconds ds of Inl e \<Rightarrow> Inl e | Inr ss \<Rightarrow> Inr (s # ss)))"

section \<open>datacomposer: TableSpec\<close>

text \<open>
  The dataclass \<^verbatim>\<open>TableSpec\<close>.  Its \<^verbatim>\<open>calculate\<close> is called with the specification
  itself; a record cannot hold a function of its own type, so the data fields form
  the record \<open>TableSpecData\<close> and \<open>calculate\<close> takes those.  What a callable raises
  is either an \<^verbatim>\<open>Exception\<close> or one of the few \<^verbatim>\<open>BaseException\<close>s that are not
  (\<^verbatim>\<open>KeyboardInterrupt\<close>, \<^verbatim>\<open>SystemExit\<close>), which \<^verbatim>\<open>except Exception\<close> lets through.
\<close>

datatype py_raise = Exc py_error | BaseExc string

record 'v TableSpecData =
  field_map :: "'v FieldMap list"
  table_name :: string
  primary_key :: "string option"
  extra_sql :: "string list option"

record ('v, 'ts, 'df) TableSpec = "'v TableSpecData" +
  calculate :: "('v TableSpecData \<Rightarrow> 'ts \<Rightarrow> py_raise + 'df) option"

text \<open>
  The constructor the dataclass generates: it stores its arguments, there is no
  \<^verbatim>\<open>__post_init__\<close>, so it returns for all of them.
\<close>

definition TableSpec_init ::
  "'v FieldMap list \<Rightarrow> string \<Rightarrow> string option \<Rightarrow> ('v TableSpecData \<Rightarrow> 'ts \<Rightarrow> py_raise + 'df) option
     \<Rightarrow> string list option \<Rightarrow> py_error + ('v, 'ts, 'df) TableSpec" where
  "TableSpec_init fm tn pk calc xsql =
     Inr \<lparr>field_map = fm, table_name = tn, primary_key = pk, extra_sql = xsql, calculate = calc\<rparr>"

text \<open>The log: level and message of each record, oldest first.\<close>

datatype log_level = DEBUG | INFO | WARNING | ERROR

type_synonym log = "(log_level \<times> string) list"

definition do_calculate ::
  "('v, 'ts, 'df) TableSpec \<Rightarrow> 'ts \<Rightarrow> log \<Rightarrow> (py_raise + 'df option) \<times> log" where
  "do_calculate self timeseries lg =
     (case calculate self of
        None \<Rightarrow> (Inr None, lg)
      | Some f \<Rightarrow>
          (case f (TableSpecData.truncate self) timeseries of
             Inr df \<Rightarrow> (Inr (Some df), lg)
           | Inl (Exc e) \<Rightarrow> (Inr None, lg @ [(ERROR, ''calculation exception: '' @ table_name self)])
           | Inl (BaseExc b) \<Rightarrow> (Inl (BaseExc b), lg)))"

definition spec_column_names :: "'v TableSpecData \<Rightarrow> string list" where
  "spec_column_names self = get_column_names (field_map self)"

definition spec_in_names :: "'v TableSpecData \<Rightarrow> string list" where
  "spec_in_names self = get_in_names (field_map self)"

section \<open>amber_data: field lists, derivations and the registry\<close>

definition TABLE_RAW_ACTUAL_30MIN :: string where
  "TABLE_RAW_ACTUAL_30MIN = ''amber_actual_30min''"

definition TABLE_RAW_ACTUAL_5MIN :: string where
  "TABLE_RAW_ACTUAL_5MIN = ''amber_actual_5min''"

definition TABLE_RAW_FORECAST :: string where
  "TABLE_RAW_FORECAST = ''amber_forecast''"

definition TABLE_RAW_FORECAST_ROLLING :: string where
  "TABLE_RAW_FORECAST_ROLLING = ''amber_forecast_rolling''"

definition TIME_FIELD :: string where
  "TIME_FIELD = ''event_time''"

definition actual_30min_fields :: "'v FieldMap list" where
  "actual_30min_fields =
     [FieldMap2 TIME_FIELD ''TIMESTAMPTZ NOT NULL'',
      FieldMap2 ''semiScheduledGeneration'' ''DOUBLE PRECISION'',
      FieldMap2 ''operationalDemand'' ''DOUBLE PRECISION'',
      FieldMap2 ''rooftopSolar'' ''DOUBLE PRECISION'',
      FieldMap2 ''createdAt'' ''TIMESTAMPTZ'',
      FieldMap2 ''wholesaleKWHPrice'' ''DOUBLE PRECISION'',
      FieldMap1 ''region'',
      FieldMap2 ''period'' ''TIMESTAMPTZ NOT NULL'',
      FieldMap2 ''renewablesPercentage'' ''DOUBLE PRECISION'',
      FieldMap2 ''percentileRank'' ''DOUBLE PRECISION'',
      FieldMap1 ''postcode'',
      FieldMap2 ''usage_price'' ''DOUBLE PRECISION'',
      FieldMap2 ''export_price'' ''DOUBLE PRECISION'']"

definition actual_5min_fields :: "'v FieldMap list" where
  "actual_5min_fields =
     [(FieldMap2 TIME_FIELD ''TIMESTAMPTZ NOT NULL'')\<lparr>keep := Some True\<rparr>,
      FieldMap2 ''operationalDemand'' ''DOUBLE PRECISION'',
      FieldMap2 ''rooftopSolar'' ''DOUBLE PRECISION'',
      FieldMap2 ''wholesaleKWHPrice'' ''DOUBLE PRECISION'',
      FieldMap1 ''region'',
      FieldMap2 ''period'' ''TIMESTAMPTZ NOT NULL'',
      FieldMap2 ''renewablesPercentage'' ''DOUBLE PRECISION'',
      FieldMap2 ''percentileRank'' ''DOUBLE PRECISION'',
      (FieldMap2 ''latestPeriod'' ''TIMESTAMPTZ'')\<lparr>keep := Some False\<rparr>,
      (FieldMap2 ''usage'' ''DOUBLE PRECISION'')\<lparr>keep := Some False\<rparr>,
      FieldMap1 ''postcode'',
      FieldMap2 ''usage_price'' ''DOUBLE PRECISION'',
      FieldMap2 ''export_price'' ''DOUBLE PRECISION'']"

definition forecast_fields :: "'v FieldMap list" where
  "forecast_fields =
     [(FieldMap2 TIME_FIELD ''TIMESTAMPTZ NOT NULL'')\<lparr>keep := Some True\<rparr>,
      FieldMap2 ''semiScheduledGeneration'' ''DOUBLE PRECISION'',
      FieldMap2 ''operationalDemand'' ''DOUBLE PRECISION'',
      FieldMap2 ''rooftopSolar'' ''DOUBLE PRECISION'',
      FieldMap2 ''createdAt'' ''TIMESTAMPTZ'',
      FieldMap2 ''wholesaleKWHPrice'' ''DOUBLE PRECISION'',
      FieldMap1 ''region'',
      FieldMap2 ''period'' ''TIMESTAMPTZ NOT NULL'',
      FieldMap2 ''renewablesPercentage'' ''DOUBLE PRECISION'',
      FieldMap1 ''periodSource'',
      FieldMap2 ''percentileRank'' ''DOUBLE PRECISION'',
      FieldMap2 ''forecastedAt'' ''TIMESTAMPTZ'',
      FieldMap2 ''wholesaleKWHPriceRange'' ''DOUBLE PRECISION[]'',
      FieldMap1 ''postcode'',
      FieldMap2 ''usage_price'' ''DOUBLE PRECISION'',
      FieldMap2 ''export_price'' ''DOUBLE PRECISION'']"

definition forecast_rolling_fields :: "'v FieldMap list" where
  "forecast_rolling_fields =
     [(FieldMap2 TIME_FIELD ''TIMESTAMPTZ NOT NULL'')\<lparr>keep := Some True\<rparr>,
      FieldMap2 ''semiScheduledGeneration'' ''DOUBLE PRECISION'',
      FieldMap2 ''operationalDemand'' ''DOUBLE PRECISION'',
      FieldMap2 ''rooftopSolar'' ''DOUBLE PRECISION'',
      FieldMap2 ''createdAt'' ''TIMESTAMPTZ'',
      FieldMap2 ''wholesaleKWHPrice'' ''DOUBLE PRECISION'',
      FieldMap1 ''region'',
      (FieldMap2 ''period'' ''TIMESTAMPTZ NOT NULL'')\<lparr>comment := Some ''30 minute period for forecast''\<rparr>,
      FieldMap2 ''renewablesPercentage'' ''DOUBLE PRECISION'',
      FieldMap1 ''periodSource'',
      FieldMap2 ''percentileRank'' ''DOUBLE PRECISION'',
      (FieldMap2 ''forecastedAt'' ''TIMESTAMPTZ'')\<lparr>comment := Some ''30 minute period when forecast was made''\<rparr>,
      (FieldMap2 ''wholesaleKWHPriceRange'' ''DOUBLE PRECISION[]'')\<lparr>comment := Some ''[min, max]''\<rparr>,
      FieldMap1 ''postcode'',
      FieldMap2 ''usage_price'' ''DOUBLE PRECISION'',
      FieldMap2 ''export_price'' ''DOUBLE PRECISION'',
      (FieldMap2 ''forecast_lead'' ''INTEGER'')\<lparr>comment :=
         Some ''lead time in seconds for forecast derived from period and forecastedAt''\<rparr>]"

text \<open>
  The derivations.  Each fails with the error of the first pandas operation that
  raises.  \<^verbatim>\<open>map_to_array\<close> converts with \<^verbatim>\<open>float\<close> and never raises; it is the
  parameter \<open>m2a\<close>.  The source's frame \<^verbatim>\<open>of\<close> is \<open>out\<close> here.
\<close>

definition calculate_actual_30min :: "'v TableSpecData \<Rightarrow> 'x DataFrame \<Rightarrow> py_error + 'x DataFrame" where
  "calculate_actual_30min spec df =
     (case getattr_col df ''periodType'' of
        Inl e \<Rightarrow> Inl e
      | Inr pt \<Rightarrow>
          (case getattr_col df ''periodSource'' of
             Inl e \<Rightarrow> Inl e
           | Inr ps \<Rightarrow>
               iloc_last (loc df (map (\<lambda>(a, b). a = Str ''ACTUAL'' \<and> b = Str ''30MIN'') (zip pt ps))
                            (columns_intersection (columns df) (spec_column_names spec)))))"

definition calculate_actual_5min :: "'v TableSpecData \<Rightarrow> 'x DataFrame \<Rightarrow> py_error + 'x DataFrame" where
  "calculate_actual_5min spec df =
     (case getattr_col df ''periodType'' of
        Inl e \<Rightarrow> Inl e
      | Inr pt \<Rightarrow>
          (case getattr_col df ''periodSource'' of
             Inl e \<Rightarrow> Inl e
           | Inr ps \<Rightarrow>
               Inr (loc df (map (\<lambda>(a, b). a = Str ''ACTUAL'' \<and> b = Str ''5MIN'') (zip pt ps))
                      (columns_intersection (columns df) (spec_column_names spec)))))"

definition map_price_range :: "('x cell \<Rightarrow> 'x cell) \<Rightarrow> 'x DataFrame \<Rightarrow> 'x DataFrame" where
  "map_price_range m2a df =
     (if ''wholesaleKWHPriceRange'' \<in> set (columns df)
      then set_column df ''wholesaleKWHPriceRange''
             (map (\<lambda>r. m2a (cell_of r ''wholesaleKWHPriceRange'')) (rows df))
      else df)"

definition calculate_forecast ::
  "('x cell \<Rightarrow> 'x cell) \<Rightarrow> 'v TableSpecData \<Rightarrow> 'x DataFrame \<Rightarrow> py_error + 'x DataFrame" where
  "calculate_forecast m2a spec df =
     (case getattr_col df ''periodType'' of
        Inl e \<Rightarrow> Inl e
      | Inr pt \<Rightarrow>
          iloc_first (map_price_range m2a
            (loc df (map (\<lambda>a. a = Str ''FORECAST'') pt)
               (columns_intersection (columns df) (spec_column_names spec)))))"

definition calculate_forecast_rolling ::
  "('x cell \<Rightarrow> 'x cell) \<Rightarrow> 'v TableSpecData \<Rightarrow> 'x DataFrame \<Rightarrow> py_error + 'x DataFrame" where
  "calculate_forecast_rolling m2a spec df =
     (case getattr_col df ''periodType'' of
        Inl e \<Rightarrow> Inl e
      | Inr pt \<Rightarrow>
          (let out = loc df (map (\<lambda>a. a = Str ''FORECAST'') pt)
                      (columns_intersection (columns df) (spec_column_names spec))
           in case getattr_col out ''period'' of
                Inl e \<Rightarrow> Inl e
              | Inr p \<Rightarrow>
                  (case getattr_col out ''forecastedAt'' of
                     Inl e \<Rightarrow> Inl e
                   | Inr f \<Rightarrow>
                       (case sub_cells p f of
                          Inl e \<Rightarrow> Inl e
                        | Inr d \<Rightarrow>
                            (case dt_seconds d of
                               Inl e \<Rightarrow> Inl e
                             | Inr s \<Rightarrow>
                                 Inr (map_price_range m2a (set_column out ''forecast_lead'' s)))))))"

text \<open>A derivation as the callable a specification holds: its errors are \<^verbatim>\<open>Exception\<close>s.\<close>

definition raising ::
  "('v TableSpecData \<Rightarrow> 'ts \<Rightarrow> py_error + 'df) \<Rightarrow> 'v TableSpecData \<Rightarrow> 'ts \<Rightarrow> py_raise + 'df" where
  "raising f spec ts = (case f spec ts of Inl e \<Rightarrow> Inl (Exc e) | Inr r \<Rightarrow> Inr r)"

definition table_specs :: "('x cell \<Rightarrow> 'x cell) \<Rightarrow> ('v, 'x DataFrame, 'x DataFrame) TableSpec list" where
  "table_specs m2a =
     [\<lparr>field_map = actual_30min_fields, table_name = TABLE_RAW_ACTUAL_30MIN,
       primary_key = Some TIME_FIELD, extra_sql = Some [DEFAULT_HYPERTABLE],
       calculate = Some (raising calculate_actual_30min)\<rparr>,
      \<lparr>field_map = actual_5min_fields, table_name = TABLE_RAW_ACTUAL_5MIN,
       primary_key = Some TIME_FIELD, extra_sql = Some [DEFAULT_HYPERTABLE],
       calculate = Some (raising calculate_actual_5min)\<rparr>,
      \<lparr>field_map = forecast_fields, table_name = TABLE_RAW_FORECAST,
       primary_key = Some TIME_FIELD, extra_sql = Some [DEFAULT_HYPERTABLE],
       calculate = Some (raising (calculate_forecast m2a))\<rparr>,
      \<lparr>field_map = forecast_rolling_fields, table_name = TABLE_RAW_FORECAST_ROLLING,
       primary_key = Some ''period, forecast_lead'',
       extra_sql = Some [''SELECT create_hypertable('' @ QUOTE @ ''{table_name}'' @ QUOTE @ '', ''
                          @ QUOTE @ ''period'' @ QUOTE @ '', '' @ ''if_not_exists => TRUE);''],
       calculate = Some (raising (calculate_forecast_rolling m2a))\<rparr>]"

section \<open>Rows for the sinks: dropna, squeeze, to_dict\<close>

text \<open>
  \<^verbatim>\<open>DataFrame.dropna()\<close> drops every row that has a null cell;
  \<^verbatim>\<open>Series.dropna()\<close> drops the null entries.  \<^verbatim>\<open>squeeze()\<close> turns a frame of one
  row and one column into a scalar, a frame of one row into the series of that row
  (labelled by the columns), a frame of one column into the series of that column
  (labelled by the rows), and leaves any other frame as it is.
\<close>

datatype 'x pdobj =
    Frame "'x DataFrame"
  | RowSeries "(string \<times> 'x cell) list"
  | ColSeries "(nat \<times> 'x cell) list"
  | Scalar "'x cell"

definition frame_dropna :: "'x DataFrame \<Rightarrow> 'x DataFrame" where
  "frame_dropna df = df\<lparr>rows := filter (\<lambda>r. list_all (\<lambda>kv. snd kv \<noteq> Null) (snd r)) (rows df)\<rparr>"

definition squeeze :: "'x DataFrame \<Rightarrow> 'x pdobj" where
  "squeeze df =
     (case rows df of
        [r] \<Rightarrow> (case columns df of
                  [c] \<Rightarrow> Scalar (cell_of r c)
                | _ \<Rightarrow> RowSeries (snd r))
      | _ \<Rightarrow> (case columns df of
                [c] \<Rightarrow> ColSeries (map (\<lambda>r. (fst r, cell_of r c)) (rows df))
              | _ \<Rightarrow> Frame df))"

fun dropna :: "'x pdobj \<Rightarrow> py_error + 'x pdobj" where
  "dropna (Frame df) = Inr (Frame (frame_dropna df))"
| "dropna (RowSeries kvs) = Inr (RowSeries (filter (\<lambda>kv. snd kv \<noteq> Null) kvs))"
| "dropna (ColSeries kvs) = Inr (ColSeries (filter (\<lambda>kv. snd kv \<noteq> Null) kvs))"
| "dropna (Scalar v) = Inl (AttributeError ''dropna'')"

text \<open>
  \<^verbatim>\<open>to_dict()\<close>: a dictionary in insertion order.  Of a series it maps each label to
  its value; of a frame it maps each column to the dictionary of that column, from
  row label to value; a scalar has no such method.
\<close>

datatype dict_key = ColKey string | RowKey nat

datatype 'x dict_value = Value "'x cell" | ColumnDict "(nat \<times> 'x cell) list"

type_synonym 'x py_dict = "(dict_key \<times> 'x dict_value) list"

fun to_dict :: "'x pdobj \<Rightarrow> py_error + 'x py_dict" where
  "to_dict (Frame df) =
     Inr (map (\<lambda>c. (ColKey c, ColumnDict (map (\<lambda>r. (fst r, cell_of r c)) (rows df)))) (columns df))"
| "to_dict (RowSeries kvs) = Inr (map (\<lambda>kv. (ColKey (fst kv), Value (snd kv))) kvs)"
| "to_dict (ColSeries kvs) = Inr (map (\<lambda>kv. (RowKey (fst kv), Value (snd kv))) kvs)"
| "to_dict (Scalar v) = Inl (AttributeError ''to_dict'')"

text \<open>\<^verbatim>\<open>df.to_dict("records")\<close>: one dictionary per row, from column to value.\<close>

definition to_records :: "'x DataFrame \<Rightarrow> 'x py_dict list" where
  "to_records df = map (\<lambda>r. map (\<lambda>kv. (ColKey (fst kv), Value (snd kv))) (snd r)) (rows df)"

text \<open>
  The keys of a dictionary as the column names \<^verbatim>\<open>compose_insert\<close> joins: joining
  raises \<^verbatim>\<open>TypeError\<close> on a key that is not a string.
\<close>

fun key_names :: "dict_key list \<Rightarrow> py_error + string list" where
  "key_names [] = Inr []"
| "key_names (ColKey c # ks) = (case key_names ks of Inl e \<Rightarrow> Inl e | Inr cs \<Rightarrow> Inr (c # cs))"
| "key_names (RowKey n # ks) = Inl TypeError"

section \<open>amber: the per-cycle loop of the Postgres consumer\<close>

text \<open>
  The loop of \<^verbatim>\<open>PostgresConsumer.write\<close> over the registry, after the raw frame is
  built.  The connection is a state \<open>'db\<close> with the two operations the loop calls as
  parameters; each returns how the call ended and the new state.  The state of the
  loop is the connection, the log, and the local variable \<^verbatim>\<open>ins_sql\<close>, which is
  unbound (\<open>None\<close>) until an iteration assigns it and which the handler of the
  single-row path reads.  Log records at level \<^verbatim>\<open>DEBUG\<close> and what \<^verbatim>\<open>print\<close> writes
  are left out.
\<close>

datatype db_outcome = DbOk | UniqueViolationError | DbException py_error

record 'db pg_state =
  conn :: 'db
  pg_log :: log
  ins_sql :: "string option"

definition log_add :: "log_level \<Rightarrow> string \<Rightarrow> 'db pg_state \<Rightarrow> 'db pg_state" where
  "log_add lvl msg st = st\<lparr>pg_log := pg_log st @ [(lvl, msg)]\<rparr>"

text \<open>
  The handler \<^verbatim>\<open>except Exception\<close> of the single-row path.  Its message reads
  \<^verbatim>\<open>ins_sql\<close>: when that is unbound the handler itself raises
  \<^verbatim>\<open>UnboundLocalError\<close>, which leaves the loop.  Otherwise the record is written and
  the iteration goes on to its last statement.  (The values the message ends with
  are left out.)
\<close>

definition single_row_handler :: "string \<Rightarrow> 'db pg_state \<Rightarrow> py_error option \<times> 'db pg_state" where
  "single_row_handler tn st =
     (case ins_sql st of
        None \<Rightarrow> (Some (OtherException ''UnboundLocalError''), st)
      | Some sql \<Rightarrow> (None, log_add ERROR (''postgres failed to write '' @ tn @ '': '' @ sql) st))"

text \<open>
  The single-row path of one iteration: the inner \<^verbatim>\<open>try\<close> and the log line after
  it.  The result is the error that leaves the iteration, if any, and the state.
\<close>

definition write_single ::
  "('db \<Rightarrow> string \<Rightarrow> 'x dict_value list \<Rightarrow> db_outcome \<times> 'db) \<Rightarrow> string \<Rightarrow> 'x DataFrame
     \<Rightarrow> 'db pg_state \<Rightarrow> py_error option \<times> 'db pg_state" where
  "write_single execute tn df st =
     (let handled =
        (case to_dict (squeeze (frame_dropna df)) of
           Inl e \<Rightarrow> single_row_handler tn st
         | Inr data \<Rightarrow>
             (case key_names (map fst data) of
                Inl e \<Rightarrow> single_row_handler tn st
              | Inr flds \<Rightarrow>
                  (let sql = compose_insert flds tn None;
                       st1 = st\<lparr>ins_sql := Some sql\<rparr>
                   in case execute (conn st1) sql (map snd data) of
                        (DbOk, c) \<Rightarrow> (None, st1\<lparr>conn := c\<rparr>)
                      | (UniqueViolationError, c) \<Rightarrow>
                          (None, log_add WARNING
                                   ''unique violation - could be a fast restart so continuing''
                                   (st1\<lparr>conn := c\<rparr>))
                      | (DbException e, c) \<Rightarrow> single_row_handler tn (st1\<lparr>conn := c\<rparr>))))
      in case handled of
           (Some e, st2) \<Rightarrow> (Some e, st2)
         | (None, st2) \<Rightarrow> (None, log_add INFO (''PostgresWriter: '' @ tn @ '' written'') st2))"

text \<open>
  The multi-row path of one iteration.  Its \<^verbatim>\<open>try\<close> has a handler for
  \<^verbatim>\<open>UniqueViolationError\<close> only, and it ends with \<^verbatim>\<open>continue\<close>.
\<close>

definition write_batch ::
  "('db \<Rightarrow> string \<Rightarrow> 'x dict_value list list \<Rightarrow> db_outcome \<times> 'db) \<Rightarrow> string \<Rightarrow> 'x DataFrame
     \<Rightarrow> 'db pg_state \<Rightarrow> py_error option \<times> 'db pg_state" where
  "write_batch executemany tn df st =
     (let st0 = log_add INFO (''table: '' @ tn @ '' has '' @ str_nat (df_len df) @ '' rows'') st;
          args = to_records df
      in case key_names (map fst (hd args)) of
           Inl e \<Rightarrow> (Some e, st0)
         | Inr flds \<Rightarrow>
             (let sql = compose_insert flds tn None;
                  st1 = st0\<lparr>ins_sql := Some sql\<rparr>
              in case executemany (conn st1) sql (map (map snd) args) of
                   (DbOk, c) \<Rightarrow> (None, st1\<lparr>conn := c\<rparr>)
                 | (UniqueViolationError, c) \<Rightarrow>
                     (None, log_add WARNING ''unique violation - could be a restart so continuing''
                              (st1\<lparr>conn := c\<rparr>))
                 | (DbException e, c) \<Rightarrow> (Some e, st1\<lparr>conn := c\<rparr>)))"

text \<open>
  The loop.  An error that leaves an iteration reaches the outer handler, which logs
  and raises it again: the remaining specifications are not visited.
\<close>

fun write_tables ::
  "('db \<Rightarrow> string \<Rightarrow> 'x dict_value list \<Rightarrow> db_outcome \<times> 'db)
     \<Rightarrow> ('db \<Rightarrow> string \<Rightarrow> 'x dict_value list list \<Rightarrow> db_outcome \<times> 'db)
     \<Rightarrow> ('v, 'ts, 'x DataFrame) TableSpec list \<Rightarrow> 'ts \<Rightarrow> 'db pg_state
     \<Rightarrow> (py_raise + int) \<times> 'db pg_state" where
  "write_tables execute executemany [] ts st = (Inr 0, st)"
| "write_tables execute executemany (spec # specs) ts st =
     (case do_calculate spec ts (pg_log st) of
        (Inl b, lg) \<Rightarrow> (Inl b, st\<lparr>pg_log := lg\<rparr>)
      | (Inr None, lg) \<Rightarrow>
          write_tables execute executemany specs ts
            (log_add INFO (''table: '' @ table_name spec @ '' is empty'') (st\<lparr>pg_log := lg\<rparr>))
      | (Inr (Some df), lg) \<Rightarrow>
          if df_empty df then
            write_tables execute executemany specs ts
              (log_add INFO (''table: '' @ table_name spec @ '' is empty'') (st\<lparr>pg_log := lg\<rparr>))
          else
            (let st0 = log_add INFO (''postgres: table: '' @ table_name spec @ '' len: ''
                                      @ str_nat (df_len df)) (st\<lparr>pg_log := lg\<rparr>)
             in case (if df_len df > 1 then write_batch executemany (table_name spec) df st0
                      else write_single execute (table_name spec) df st0) of
                  (Some e, st1) \<Rightarrow>
                    (Inl (Exc e),
                     log_add ERROR (''PostgresWriter: failed to write: '' @ QUOTE @ table_name spec @ QUOTE)
                       st1)
                | (None, st1) \<Rightarrow> write_tables execute executemany specs ts st1))"

section \<open>amber: the per-cycle loop of the MQTT consumer\<close>

text \<open>
  The loop of \<^verbatim>\<open>MqttConsumer.consume\<close>.  The encoder and the client's \<^verbatim>\<open>publish\<close>
  are parameters; the client is a state \<open>'mq\<close>.  The topic is the template formatted
  with the keyword \<^verbatim>\<open>series\<close>.
\<close>

record 'mq mq_state =
  client :: 'mq
  mq_log :: log

definition mq_log_add :: "log_level \<Rightarrow> string \<Rightarrow> 'mq mq_state \<Rightarrow> 'mq mq_state" where
  "mq_log_add lvl msg st = st\<lparr>mq_log := mq_log st @ [(lvl, msg)]\<rparr>"

text \<open>The \<^verbatim>\<open>try\<close> of one iteration: any \<^verbatim>\<open>Exception\<close> in it is logged, nothing leaves it.\<close>

definition publish_single ::
  "(kwargs \<Rightarrow> string \<Rightarrow> py_error + string) \<Rightarrow> ('x py_dict \<Rightarrow> py_error + string)
     \<Rightarrow> ('mq \<Rightarrow> string \<Rightarrow> string \<Rightarrow> py_error option \<times> 'mq) \<Rightarrow> string \<Rightarrow> string
     \<Rightarrow> 'x DataFrame \<Rightarrow> 'mq mq_state \<Rightarrow> 'mq mq_state" where
  "publish_single ext encode publish topic_template tn df st =
     (let failed = mq_log_add ERROR ''mqtt actual_5min publish failed''
      in case dropna (squeeze df) of
           Inl e \<Rightarrow> failed st
         | Inr ser \<Rightarrow>
             (case to_dict ser of
                Inl e \<Rightarrow> failed st
              | Inr d \<Rightarrow>
                  (case encode d of
                     Inl e \<Rightarrow> failed st
                   | Inr msg \<Rightarrow>
                       (case py_format ext [(''series'', Some tn)] topic_template of
                          Inl e \<Rightarrow> failed st
                        | Inr topic \<Rightarrow>
                            (case publish (client st) topic msg of
                               (None, c) \<Rightarrow> st\<lparr>client := c\<rparr>
                             | (Some e, c) \<Rightarrow> failed (st\<lparr>client := c\<rparr>))))))"

fun consume_tables ::
  "(kwargs \<Rightarrow> string \<Rightarrow> py_error + string) \<Rightarrow> ('x py_dict \<Rightarrow> py_error + string)
     \<Rightarrow> ('mq \<Rightarrow> string \<Rightarrow> string \<Rightarrow> py_error option \<times> 'mq) \<Rightarrow> string
     \<Rightarrow> ('v, 'ts, 'x DataFrame) TableSpec list \<Rightarrow> 'ts \<Rightarrow> 'mq mq_state
     \<Rightarrow> (py_raise + int) \<times> 'mq mq_state" where
  "consume_tables ext encode publish topic_template [] ts st = (Inr 0, st)"
| "consume_tables ext encode publish topic_template (spec # specs) ts st =
     (case do_calculate spec ts (mq_log st) of
        (Inl b, lg) \<Rightarrow> (Inl b, st\<lparr>mq_log := lg\<rparr>)
      | (Inr None, lg) \<Rightarrow>
          consume_tables ext encode publish topic_template specs ts
            (mq_log_add INFO (''mqtt table: '' @ table_name spec @ '' is empty'') (st\<lparr>mq_log := lg\<rparr>))
      | (Inr (Some df), lg) \<Rightarrow>
          if df_empty df then
            consume_tables ext encode publish topic_template specs ts
              (mq_log_add INFO (''mqtt table: '' @ table_name spec @ '' is empty'') (st\<lparr>mq_log := lg\<rparr>))
          else if df_len df > 1 then
            consume_tables ext encode publish topic_template specs ts
              (mq_log_add INFO (''mqtt multiple rows not implemented yet '' @ table_name spec)
                 (st\<lparr>mq_log := lg\<rparr>))
          else
            consume_tables ext encode publish topic_template specs ts
              (publish_single ext encode publish topic_template (table_name spec) df
                 (st\<lparr>mq_log := lg\<rparr>)))"

section \<open>Example cycles\<close>

text \<open>
  A raw frame of one fetch: one coarse actual row, two fine actual rows and one
  forecast row, stamped with the cycle time 7.
\<close>

definition example_cycle :: "unit DataFrame" where
  "example_cycle =
     \<lparr>columns = [''event_time'', ''periodType'', ''periodSource'', ''period'', ''forecastedAt''],
      rows = [(0, [(''event_time'', Time 7), (''periodType'', Str ''ACTUAL''),
                   (''periodSource'', Str ''30MIN''), (''period'', Time 1), (''forecastedAt'', Null)]),
              (1, [(''event_time'', Time 7), (''periodType'', Str ''ACTUAL''),
                   (''periodSource'', Str ''5MIN''), (''period'', Time 2), (''forecastedAt'', Null)]),
              (2, [(''event_time'', Time 7), (''periodType'', Str ''ACTUAL''),
                   (''periodSource'', Str ''5MIN''), (''period'', Time 3), (''forecastedAt'', Null)]),
              (3, [(''event_time'', Time 7), (''periodType'', Str ''FORECAST''),
                   (''periodSource'', Str ''30MIN''), (''period'', Time 1800000000004),
                   (''forecastedAt'', Time 4)])]\<rparr>"

text \<open>A derived frame of one row in which one cell is null.\<close>

definition example_row :: "unit DataFrame" where
  "example_row =
     \<lparr>columns = [''event_time'', ''region'', ''rooftopSolar''],
      rows = [(0, [(''event_time'', Time 7), (''region'', Str ''VIC''), (''rooftopSolar'', Null)])]\<rparr>"

text \<open>
  Connections that record the statements they are given: one on which every call
  succeeds, and the two operations failing with an error that is not a uniqueness
  violation.
\<close>

definition db_ok :: "(string \<times> 'a) list \<Rightarrow> string \<Rightarrow> 'a \<Rightarrow> db_outcome \<times> (string \<times> 'a) list" where
  "db_ok db sql vals = (DbOk, db @ [(sql, vals)])"

definition db_fail :: "'db \<Rightarrow> string \<Rightarrow> 'a \<Rightarrow> db_outcome \<times> 'db" where
  "db_fail db sql vals = (DbException (OtherException ''PostgresError''), db)"

section \<open>Vocabulary of the claims\<close>



text \<open>
  The clauses that precede the post-create statements, in closed form: the create
  clause with the kept fields, the primary-key clause when the key is truthy, and
  the closing clause.
\<close>

definition head_clauses :: "string \<Rightarrow> 'v FieldMap list \<Rightarrow> string option \<Rightarrow> string list" where
  "head_clauses t flds pk =
     [''CREATE TABLE IF NOT EXISTS '' @ t @ '' ('' @ NL @ str_join ('','' @ NL) (map field_desc (kept flds))]
       @ (if truthy pk then ['', PRIMARY KEY('' @ the pk @ '')''] else []) @ ['');'']"

text \<open>The templates of an optional list: none when the list is absent.\<close>

fun templates :: "string list option \<Rightarrow> string list" where
  "templates None = []"
| "templates (Some xs) = xs"

text \<open>Text without braces: \<open>py_format\<close> copies it.\<close>

definition brace_free :: "string \<Rightarrow> bool" where
  "brace_free s = list_all (\<lambda>c. c \<noteq> CHR ''{'' \<and> c \<noteq> CHR ''}'') s"

text \<open>The selection predicate of the coarse-actual table, on one row.\<close>

definition matching_30min :: "'x row \<Rightarrow> bool" where
  "matching_30min r =
     (cell_of r ''periodType'' = Str ''ACTUAL'' \<and> cell_of r ''periodSource'' = Str ''30MIN'')"

text \<open>
  Reading a comma-separated list back: the text is cut at every comma and the blank
  after each comma is dropped.  The empty text is the empty list.
\<close>

fun split_on :: "char \<Rightarrow> string \<Rightarrow> string list" where
  "split_on c [] = [[]]"
| "split_on c (x # xs) =
     (if x = c then [] # split_on c xs
      else (case split_on c xs of [] \<Rightarrow> [[x]] | y # ys \<Rightarrow> (x # y) # ys))"

definition read_list :: "string \<Rightarrow> string list" where
  "read_list s =
     (if s = [] then []
      else (case split_on CHR '','' s of [] \<Rightarrow> [] | x # xs \<Rightarrow> x # map tl xs))"

section \<open>Lemmas on strings\<close>

lemma digit_val_digit_char: "d < 10 \<Longrightarrow> digit_val (digit_char d) = d"
  by (simp add: digit_val_def digit_char_def)

lemma nat_of_digits_snoc: "nat_of_digits (s @ [c]) = 10 * nat_of_digits s + digit_val c"
  by (simp add: nat_of_digits_def)

lemma nat_of_digits_str_nat: "nat_of_digits (str_nat n) = n"
proof (induction n rule: str_nat.induct)
  case (1 n)
  show ?case
  proof (cases "n < 10")
    case True
    then show ?thesis
      by (subst str_nat.simps) (simp add: nat_of_digits_def digit_val_digit_char)
  next
    case False
    with 1 have "nat_of_digits (str_nat (n div 10)) = n div 10" by simp
    with False show ?thesis
      by (subst str_nat.simps) (simp add: nat_of_digits_snoc digit_val_digit_char)
  qed
qed

lemma length_placeholders_from: "length (placeholders_from i k) = k"
  by (induction k arbitrary: i) simp_all

lemma nth_placeholders_from:
  "j < k \<Longrightarrow> placeholders_from i k ! j = CHR ''$'' # str_nat (i + j + 1)"
proof (induction k arbitrary: i j)
  case 0
  then show ?case by simp
next
  case (Suc k)
  then show ?case by (cases j) simp_all
qed

section \<open>The insert statement\<close>

lemma split_on_not_Nil: "split_on c s \<noteq> []"
  by (induction s) (auto split: list.splits)

lemma split_on_free: "c \<notin> set x \<Longrightarrow> split_on c x = [x]"
  by (induction x) auto

lemma split_on_append: "c \<notin> set x \<Longrightarrow> split_on c (x @ c # rest) = x # split_on c rest"
  by (induction x) auto

lemma split_on_join:
  "\<forall>n\<in>set (x # xs). CHR '','' \<notin> set n \<Longrightarrow>
     split_on CHR '','' (str_join '', '' (x # xs)) = x # map (\<lambda>n. CHR '' '' # n) xs"
proof (induction xs arbitrary: x)
  case Nil
  then show ?case by (simp add: split_on_free)
next
  case (Cons y ys)
  from Cons.prems have x: "CHR '','' \<notin> set x" and rest: "\<forall>n\<in>set (y # ys). CHR '','' \<notin> set n"
    by simp_all
  have "str_join '', '' (x # y # ys) = x @ CHR '','' # (CHR '' '' # str_join '', '' (y # ys))"
    by simp
  then have "split_on CHR '','' (str_join '', '' (x # y # ys)) =
               x # split_on CHR '','' (CHR '' '' # str_join '', '' (y # ys))"
    using split_on_append [OF x] by simp
  also have "split_on CHR '','' (CHR '' '' # str_join '', '' (y # ys)) =
               (CHR '' '' # y) # map (\<lambda>n. CHR '' '' # n) ys"
    using Cons.IH [OF rest] by simp
  finally show ?case by simp
qed

lemma str_join_Nil_iff: "\<forall>n\<in>set xs. n \<noteq> [] \<Longrightarrow> str_join sep xs = [] \<longleftrightarrow> xs = []"
  by (induction sep xs rule: str_join.induct) auto

lemma read_list_join:
  assumes "\<forall>n\<in>set names. n \<noteq> [] \<and> CHR '','' \<notin> set n"
  shows "read_list (str_join '', '' names) = names"
proof (cases names)
  case Nil
  then show ?thesis by (simp add: read_list_def)
next
  case (Cons x xs)
  from assms have ne: "str_join '', '' names \<noteq> []"
    using str_join_Nil_iff [of names "'', ''"] Cons by auto
  from assms Cons have "split_on CHR '','' (str_join '', '' names) = x # map (\<lambda>n. CHR '' '' # n) xs"
    using split_on_join [of x xs] by auto
  with ne Cons show ?thesis
    by (simp add: read_list_def comp_def)
qed

lemma of_char_digit_char: "d < 10 \<Longrightarrow> (of_char (digit_char d) :: nat) = 48 + d"
  by (simp add: digit_char_def)

lemma digit_char_not_comma: "d < 10 \<Longrightarrow> digit_char d \<noteq> CHR '',''"
proof
  assume d: "d < 10" and eq: "digit_char d = CHR '',''"
  then have "(of_char (digit_char d) :: nat) = of_char CHR '',''" by simp
  with d show False
    by (simp add: of_char_digit_char)
qed

lemma str_nat_no_comma: "CHR '','' \<notin> set (str_nat n)"
proof (induction n rule: str_nat.induct)
  case (1 n)
  show ?case
  proof (cases "n < 10")
    case True
    then show ?thesis
      using digit_char_not_comma [of n] by (subst str_nat.simps) auto
  next
    case False
    with 1 have "CHR '','' \<notin> set (str_nat (n div 10))" by simp
    moreover have "digit_char (n mod 10) \<noteq> CHR '',''"
      by (rule digit_char_not_comma) simp
    ultimately show ?thesis
      using False by (subst str_nat.simps) auto
  qed
qed

lemma placeholders_from_map:
  "placeholders_from i k = map (\<lambda>j. CHR ''$'' # str_nat (Suc j)) [i..<i + k]"
proof (induction k arbitrary: i)
  case 0
  then show ?case by simp
next
  case (Suc k)
  have "[i..<i + Suc k] = i # [Suc i..<Suc i + k]"
    by (simp add: upt_conv_Cons)
  with Suc show ?case by simp
qed

lemma read_placeholders:
  "map (\<lambda>p. nat_of_digits (tl p)) (read_list (str_join '', '' (placeholders n))) = [1..<Suc n]"
proof -
  have "\<forall>p\<in>set (placeholders n). p \<noteq> [] \<and> CHR '','' \<notin> set p"
    by (auto simp: placeholders_def placeholders_from_map str_nat_no_comma)
  then have "read_list (str_join '', '' (placeholders n)) = placeholders n"
    by (rule read_list_join)
  moreover have "map (\<lambda>p. nat_of_digits (tl p)) (placeholders n) = map Suc [0..<n]"
    by (simp add: placeholders_def placeholders_from_map nat_of_digits_str_nat comp_def)
  moreover have "map Suc [0..<n] = [1..<Suc n]"
    by (simp add: map_Suc_upt)
  ultimately show ?thesis by simp
qed

text \<open>
  C1.  For every list of column names and every table name, \<open>compose_insert\<close>
  returns \<^verbatim>\<open>INSERT INTO t (cols) values (phs)\<close> followed by the extra clause.
  The column list is the given names joined by \<^verbatim>\<open>", "\<close>: read back, it is the
  list of names itself, in the same order and with every repetition (for names
  that are not empty and hold no comma).  There are exactly as many placeholders
  as names, the placeholder at (0-based) position \<open>i\<close> is \<^verbatim>\<open>$\<close> followed by the
  decimal numeral of \<open>i + 1\<close>, and the placeholder list read back carries the
  numbers 1 to N in order.  An extra clause that is given and not empty follows the
  statement verbatim on a new line.
\<close>

theorem compose_insert_positional:
  "compose_insert names t xc =
     ''INSERT INTO '' @ t @ '' ('' @ str_join '', '' names @ '') values (''
       @ str_join '', '' (placeholders (length names)) @ '')''
       @ (case xc of None \<Rightarrow> [] | Some x \<Rightarrow> if x = [] then [] else NL @ x)
   \<and> length (placeholders (length names)) = length names
   \<and> (\<forall>i < length names.
         placeholders (length names) ! i = CHR ''$'' # str_nat (i + 1)
         \<and> nat_of_digits (str_nat (i + 1)) = i + 1)
   \<and> map (\<lambda>p. nat_of_digits (tl p)) (read_list (str_join '', '' (placeholders (length names))))
       = [1..<Suc (length names)]
   \<and> ((\<forall>n\<in>set names. n \<noteq> [] \<and> CHR '','' \<notin> set n) \<longrightarrow>
         read_list (str_join '', '' names) = names)"
proof (intro conjI allI impI)
  show "compose_insert names t xc =
     ''INSERT INTO '' @ t @ '' ('' @ str_join '', '' names @ '') values (''
       @ str_join '', '' (placeholders (length names)) @ '')''
       @ (case xc of None \<Rightarrow> [] | Some x \<Rightarrow> if x = [] then [] else NL @ x)"
    by (cases xc) (simp_all add: compose_insert_def Let_def)
  show "length (placeholders (length names)) = length names"
    by (simp add: placeholders_def length_placeholders_from)
  show "placeholders (length names) ! i = CHR ''$'' # str_nat (i + 1)" if "i < length names" for i
    using that by (simp add: placeholders_def nth_placeholders_from)
  show "nat_of_digits (str_nat (i + 1)) = i + 1" for i
    by (rule nat_of_digits_str_nat)
  show "map (\<lambda>p. nat_of_digits (tl p)) (read_list (str_join '', '' (placeholders (length names))))
       = [1..<Suc (length names)]"
    by (rule read_placeholders)
  show "read_list (str_join '', '' names) = names"
    if "\<forall>n\<in>set names. n \<noteq> [] \<and> CHR '','' \<notin> set n"
    using that by (rule read_list_join)
qed

lemma placeholders_2: "placeholders 2 = [''$1'', ''$2'']"
  by code_simp

lemma names_example: "\<forall>n\<in>set [''a'', ''b'']. n \<noteq> [] \<and> CHR '','' \<notin> set n"
  by simp

theorem compose_insert_positional_witness:
  "compose_insert [''a'', ''b''] ''t'' (Some ''ON CONFLICT DO NOTHING'') =
     ''INSERT INTO t (a, b) values ($1, $2)'' @ NL @ ''ON CONFLICT DO NOTHING''
   \<and> read_list ''a, b'' = [''a'', ''b'']
   \<and> map (\<lambda>p. nat_of_digits (tl p)) (read_list ''$1, $2'') = [1, 2]"
proof -
  have len: "length [''a'', ''b''] = 2"
    by simp
  note inst = compose_insert_positional [of "[''a'', ''b'']" "''t''" "Some ''ON CONFLICT DO NOTHING''",
      unfolded len]
  from inst have stmt: "compose_insert [''a'', ''b''] ''t'' (Some ''ON CONFLICT DO NOTHING'') =
     ''INSERT INTO t (a, b) values ($1, $2)'' @ NL @ ''ON CONFLICT DO NOTHING''"
    by (simp add: placeholders_2)
  from inst names_example have cols: "read_list (str_join '', '' [''a'', ''b'']) = [''a'', ''b'']"
    by blast
  from inst have "map (\<lambda>p. nat_of_digits (tl p)) (read_list (str_join '', '' (placeholders 2)))
       = [1..<Suc 2]"
    by blast
  then have nums: "map (\<lambda>p. nat_of_digits (tl p)) (read_list ''$1, $2'') = [1, 2]"
    by (simp add: placeholders_2 upt_rec)
  from stmt cols nums show ?thesis
    by simp
qed

section \<open>Lemmas on str.format\<close>




section \<open>Lemmas on strip\<close>





section \<open>Lemmas on compose_create\<close>






lemma compose_clauses_unfold:
  "compose_clauses ext t flds pk xs =
     (if templates xs = [] then Inr (head_clauses t flds pk)
      else append_extra (py_format ext (format_kwargs t pk)) (head_clauses t flds pk) (templates xs))"
  by (cases xs) (simp_all add: compose_clauses_def head_clauses_def Let_def)

lemma compose_clauses_append_extra:
  "compose_clauses ext t flds pk xs =
     append_extra (py_format ext (format_kwargs t pk)) (head_clauses t flds pk) (templates xs)"
  by (simp add: compose_clauses_unfold)



lemma cons_ok_append_ok: "cons_ok c (append_ok lit r) = append_ok (c # lit) r"
  by (cases r) simp_all

lemma append_ok_Nil: "append_ok [] r = r"
  by (cases r) simp_all

lemma py_format_literal:
  "brace_free lit \<Longrightarrow> py_format ext kw (lit @ rest) = append_ok lit (py_format ext kw rest)"
proof (induction lit)
  case Nil
  then show ?case by (simp add: append_ok_Nil)
next
  case (Cons c lit)
  then have "c \<noteq> CHR ''{''" "c \<noteq> CHR ''}''" "brace_free lit"
    by (simp_all add: brace_free_def)
  with Cons.IH show ?case
    by (simp add: py_format.simps cons_ok_append_ok)
qed

lemma takeWhile_until: "a \<notin> set k \<Longrightarrow> takeWhile (\<lambda>x. x \<noteq> a) (k @ a # rest) = k"
  by (induction k) auto

lemma dropWhile_until: "a \<notin> set k \<Longrightarrow> dropWhile (\<lambda>x. x \<noteq> a) (k @ a # rest) = a # rest"
  by (induction k) auto

lemma plain_key_no_open: "plain_key k \<Longrightarrow> k \<noteq> [] \<and> hd k \<noteq> CHR ''{''"
  by (cases k) (auto simp: plain_key_def)

lemma py_format_field:
  assumes "plain_key k" "CHR ''}'' \<notin> set k"
  shows "py_format ext kw (CHR ''{'' # k @ CHR ''}'' # rest) =
           (case map_of kw k of
              None \<Rightarrow> Inl (KeyError k)
            | Some v \<Rightarrow> append_ok (py_str v) (py_format ext kw rest))"
proof -
  from plain_key_no_open [OF assms(1)] obtain d k' where k: "k = d # k'" and d: "d \<noteq> CHR ''{''"
    by (cases k) auto
  have name: "field_name (k @ CHR ''}'' # rest) = k"
    using assms(2) by (simp add: field_name_def takeWhile_until)
  have rest: "field_rest (k @ CHR ''}'' # rest) = CHR ''}'' # rest"
    using assms(2) by (simp add: field_rest_def dropWhile_until)
  have "py_format ext kw (CHR ''{'' # (d # k') @ CHR ''}'' # rest) =
          (case map_of kw k of
              None \<Rightarrow> Inl (KeyError k)
            | Some v \<Rightarrow> append_ok (py_str v) (py_format ext kw rest))"
    using d name rest assms(1) unfolding k
    by (subst py_format.simps) (simp split: option.splits)
  then show ?thesis
    by (simp add: k)
qed















lemma plain_key_names:
  "plain_key ''table_name'' \<and> CHR ''}'' \<notin> set ''table_name''
   \<and> plain_key ''primary_key'' \<and> CHR ''}'' \<notin> set ''primary_key''"
  by code_simp

lemma py_format_table_name:
  "py_format ext (format_kwargs t pk) (CHR ''{'' # ''table_name'' @ CHR ''}'' # rest) =
     append_ok t (py_format ext (format_kwargs t pk) rest)"
  using plain_key_names
  by (subst py_format_field) (simp_all add: format_kwargs_def)

lemma py_format_primary_key:
  "py_format ext (format_kwargs t pk) (CHR ''{'' # ''primary_key'' @ CHR ''}'' # rest) =
     append_ok (py_str pk) (py_format ext (format_kwargs t pk) rest)"
  using plain_key_names
  by (subst py_format_field) (simp_all add: format_kwargs_def)

lemma py_format_brace_free: "brace_free s \<Longrightarrow> py_format ext kw s = Inr s"
  using py_format_literal [of s ext kw "[]"] by (simp add: py_format.simps)

lemma DEFAULT_HYPERTABLE_parts:
  "DEFAULT_HYPERTABLE =
     (''SELECT create_hypertable('' @ QUOTE) @ CHR ''{'' # ''table_name'' @ CHR ''}'' #
       ((QUOTE @ '', '' @ QUOTE) @ CHR ''{'' # ''primary_key'' @ CHR ''}'' #
          (QUOTE @ '', if_not_exists => TRUE);''))"
  by (simp add: DEFAULT_HYPERTABLE_def)

lemma brace_free_parts:
  "brace_free (''SELECT create_hypertable('' @ QUOTE)"
  "brace_free (QUOTE @ '', '' @ QUOTE)"
  "brace_free (QUOTE @ '', if_not_exists => TRUE);'')"
  by (simp_all add: brace_free_def QUOTE_def)

lemma py_format_DEFAULT_HYPERTABLE:
  "py_format ext (format_kwargs t pk) DEFAULT_HYPERTABLE =
     Inr (''SELECT create_hypertable('' @ QUOTE @ t @ QUOTE @ '', '' @ QUOTE @ py_str pk @ QUOTE
          @ '', if_not_exists => TRUE);'')"
proof -
  define p1 where "p1 = ''SELECT create_hypertable('' @ QUOTE"
  define p2 where "p2 = QUOTE @ '', '' @ QUOTE"
  define p3 where "p3 = QUOTE @ '', if_not_exists => TRUE);''"
  have bf: "brace_free p1" "brace_free p2" "brace_free p3"
    using brace_free_parts by (simp_all add: p1_def p2_def p3_def)
  have eq: "DEFAULT_HYPERTABLE =
          p1 @ CHR ''{'' # ''table_name'' @ CHR ''}'' # (p2 @ CHR ''{'' # ''primary_key'' @ CHR ''}'' # p3)"
    unfolding p1_def p2_def p3_def by (rule DEFAULT_HYPERTABLE_parts)
  have "py_format ext (format_kwargs t pk) DEFAULT_HYPERTABLE =
          Inr (p1 @ t @ p2 @ py_str pk @ p3)"
    by (simp only: eq py_format_literal [OF bf(1)] py_format_literal [OF bf(2)]
        py_format_table_name py_format_primary_key py_format_brace_free [OF bf(3)] append_ok.simps)
  then show ?thesis
    by (simp add: p1_def p2_def p3_def)
qed

lemma py_format_around_primary_key:
  assumes "brace_free pre" "brace_free post"
  shows "py_format ext (format_kwargs t pk) (pre @ ''{primary_key}'' @ post) =
           Inr (pre @ py_str pk @ post)"
proof -
  have eq: "pre @ ''{primary_key}'' @ post = pre @ CHR ''{'' # ''primary_key'' @ CHR ''}'' # post"
    by simp
  show ?thesis
    by (simp only: eq py_format_literal [OF assms(1)] py_format_primary_key
        py_format_brace_free [OF assms(2)] append_ok.simps)
qed

lemma compose_create_single:
  "py_format ext (format_kwargs t pk) x = Inr s \<Longrightarrow>
   compose_create ext t flds pk (Some [x]) = Inr (str_join NL (head_clauses t flds pk @ [s]))"
  by (simp add: compose_create_def compose_clauses_append_extra)

lemma str_join_head_None:
  "str_join NL (head_clauses t flds None @ [s]) =
     ''CREATE TABLE IF NOT EXISTS '' @ t @ '' ('' @ NL
       @ str_join ('','' @ NL) (map field_desc (kept flds)) @ NL @ '');'' @ NL @ s"
  by (simp add: head_clauses_def)

text \<open>
  C9.  With \<open>primary_key\<close> absent (\<open>None\<close>) and a post-create template that refers to
  \<^verbatim>\<open>{primary_key}\<close>, \<open>compose_create\<close> returns: the keyword is passed with the value
  \<open>None\<close>, whose text \<^verbatim>\<open>None\<close> is substituted.  This holds for the hypertable
  template of \<^verbatim>\<open>amber_data.py\<close>, for every table name and field list, and for every
  template that has the field between two brace-free texts.
\<close>

theorem compose_create_primary_key_None:
  "compose_create ext t flds None (Some [DEFAULT_HYPERTABLE]) =
     Inr (''CREATE TABLE IF NOT EXISTS '' @ t @ '' ('' @ NL
          @ str_join ('','' @ NL) (map field_desc (kept flds)) @ NL @ '');'' @ NL
          @ ''SELECT create_hypertable('' @ QUOTE @ t @ QUOTE @ '', '' @ QUOTE @ ''None'' @ QUOTE
          @ '', if_not_exists => TRUE);'')
   \<and> (\<forall>pre post. brace_free pre \<longrightarrow> brace_free post \<longrightarrow>
         compose_create ext t flds None (Some [pre @ ''{primary_key}'' @ post]) =
           Inr (''CREATE TABLE IF NOT EXISTS '' @ t @ '' ('' @ NL
                @ str_join ('','' @ NL) (map field_desc (kept flds)) @ NL @ '');'' @ NL
                @ pre @ ''None'' @ post))"
proof (intro conjI allI impI)
  show "compose_create ext t flds None (Some [DEFAULT_HYPERTABLE]) =
     Inr (''CREATE TABLE IF NOT EXISTS '' @ t @ '' ('' @ NL
          @ str_join ('','' @ NL) (map field_desc (kept flds)) @ NL @ '');'' @ NL
          @ ''SELECT create_hypertable('' @ QUOTE @ t @ QUOTE @ '', '' @ QUOTE @ ''None'' @ QUOTE
          @ '', if_not_exists => TRUE);'')"
    by (simp only: compose_create_single [OF py_format_DEFAULT_HYPERTABLE] str_join_head_None
        py_str.simps)
next
  fix pre post assume "brace_free pre" "brace_free post"
  note fmt = py_format_around_primary_key [OF this]
  show "compose_create ext t flds None (Some [pre @ ''{primary_key}'' @ post]) =
           Inr (''CREATE TABLE IF NOT EXISTS '' @ t @ '' ('' @ NL
                @ str_join ('','' @ NL) (map field_desc (kept flds)) @ NL @ '');'' @ NL
                @ pre @ ''None'' @ post)"
    by (simp only: compose_create_single [OF fmt] str_join_head_None py_str.simps)
qed

lemma brace_free_example: "brace_free ''f('' \<and> brace_free '');''"
  by code_simp

theorem compose_create_primary_key_None_witness:
  "compose_create (\<lambda>_ _. Inl TypeError) ''t'' [FieldMap1 ''a'' :: unit FieldMap] None
     (Some [''f({primary_key});'']) =
     Inr (''CREATE TABLE IF NOT EXISTS t ('' @ NL @ ''a VARCHAR'' @ NL @ '');'' @ NL @ ''f(None);'')"
proof -
  have fd: "field_desc (FieldMap1 ''a'' :: unit FieldMap) = ''a VARCHAR''"
    by code_simp
  have k: "kept [FieldMap1 ''a'' :: unit FieldMap] = [FieldMap1 ''a'']"
    by (simp add: kept_def FieldMap1_def FieldMap2_def)
  from compose_create_primary_key_None [of "\<lambda>_ _. Inl TypeError" "''t''" "[FieldMap1 ''a'' :: unit FieldMap]"]
  have "\<forall>pre post. brace_free pre \<longrightarrow> brace_free post \<longrightarrow>
         compose_create (\<lambda>_ _. Inl TypeError) ''t'' [FieldMap1 ''a'' :: unit FieldMap] None
           (Some [pre @ ''{primary_key}'' @ post]) =
           Inr (''CREATE TABLE IF NOT EXISTS '' @ ''t'' @ '' ('' @ NL
                @ str_join ('','' @ NL) (map field_desc (kept [FieldMap1 ''a'' :: unit FieldMap]))
                @ NL @ '');'' @ NL @ pre @ ''None'' @ post)"
    by (elim conjE)
  from this [rule_format, of "''f(''" "'');''"] brace_free_example show ?thesis
    by (simp add: k fd)
qed

text \<open>
  C10.  \<open>get_column_names\<close> returns one name per kept field, in order, and for every
  kept field whose \<open>column_name\<close> is the empty string the name returned at its position
  is the field's source name \<open>in_name\<close>, as it is when \<open>column_name\<close> is absent: it is
  the name \<open>get_in_names\<close> returns there, it is not empty unless the source name itself
  is, and it is the name that opens the field's description in the DDL.
\<close>

theorem get_column_names_falsy_fallback:
  "length (get_column_names fm) = length (kept fm)
   \<and> (\<forall>i < length (kept fm).
        column_name (kept fm ! i) = Some [] \<or> column_name (kept fm ! i) = None \<longrightarrow>
          get_column_names fm ! i = in_name (kept fm ! i)
        \<and> get_column_names fm ! i = get_in_names fm ! i
        \<and> (in_name (kept fm ! i) \<noteq> [] \<longrightarrow> get_column_names fm ! i \<noteq> [])
        \<and> field_desc (kept fm ! i) =
            strip (in_name (kept fm ! i) @ '' '' @ py_str (data_type (kept fm ! i)) @ '' ''
                   @ (case default_f (kept fm ! i) of None \<Rightarrow> [] | Some d \<Rightarrow> d)))"
proof (intro conjI allI impI)
  show "length (get_column_names fm) = length (kept fm)"
    by (simp add: get_column_names_def)
next
  fix i assume i: "i < length (kept fm)"
    and c: "column_name (kept fm ! i) = Some [] \<or> column_name (kept fm ! i) = None"
  from c have eff: "effective_name (kept fm ! i) = in_name (kept fm ! i)"
    by (auto simp: effective_name_def)
  with i show col: "get_column_names fm ! i = in_name (kept fm ! i)"
    by (simp add: get_column_names_def)
  from i col show "get_column_names fm ! i = get_in_names fm ! i"
    by (simp add: get_in_names_def)
  from col show "get_column_names fm ! i \<noteq> []" if "in_name (kept fm ! i) \<noteq> []"
    using that by simp
  from eff show "field_desc (kept fm ! i) =
            strip (in_name (kept fm ! i) @ '' '' @ py_str (data_type (kept fm ! i)) @ '' ''
                   @ (case default_f (kept fm ! i) of None \<Rightarrow> [] | Some d \<Rightarrow> d))"
    by (simp add: field_desc_def)
qed

theorem get_column_names_falsy_fallback_witness:
  "get_column_names [(FieldMap1 ''skipped'')\<lparr>keep := Some False\<rparr>,
                     (FieldMap1 ''src'')\<lparr>column_name := Some ''''\<rparr> :: unit FieldMap] ! 0 = ''src''"
proof -
  let ?fm = "[(FieldMap1 ''skipped'')\<lparr>keep := Some False\<rparr>,
              (FieldMap1 ''src'')\<lparr>column_name := Some ''''\<rparr> :: unit FieldMap]"
  have k: "kept ?fm = [(FieldMap1 ''src'')\<lparr>column_name := Some ''''\<rparr>]"
    by (simp add: kept_def FieldMap1_def FieldMap2_def)
  from get_column_names_falsy_fallback [of ?fm]
  have "\<forall>i < length (kept ?fm).
        column_name (kept ?fm ! i) = Some [] \<or> column_name (kept ?fm ! i) = None \<longrightarrow>
          get_column_names ?fm ! i = in_name (kept ?fm ! i)"
    by blast
  from this [unfolded k, rule_format, of 0] show ?thesis
    by (simp add: FieldMap1_def FieldMap2_def)
qed

section \<open>Lemmas on frames\<close>

lemma select_by_mask: "map snd (filter fst (zip (map f xs) xs)) = filter f xs"
  by (induction xs) simp_all

lemma zip_two_columns: "zip (map g xs) (map h xs) = map (\<lambda>x. (g x, h x)) xs"
  by (induction xs) simp_all

lemma loc_two_columns:
  "loc df (map (\<lambda>(a, b). P a b) (zip (map g (rows df)) (map h (rows df)))) cols =
     \<lparr>columns = cols, rows = map (project_row cols) (filter (\<lambda>r. P (g r) (h r)) (rows df))\<rparr>"
proof -
  have "map (\<lambda>(a, b). P a b) (zip (map g (rows df)) (map h (rows df))) =
          map (\<lambda>r. P (g r) (h r)) (rows df)"
    by (simp add: zip_two_columns)
  then show ?thesis
    by (simp add: loc_def select_by_mask)
qed

text \<open>
  C8.  On a dataset that has the two discriminator columns and at least one row
  matching \<^verbatim>\<open>periodType == "ACTUAL"\<close> and \<^verbatim>\<open>periodSource == "30MIN"\<close>,
  \<open>calculate_actual_30min\<close> returns a frame of exactly one row: the last matching
  row in input order, projected to the columns of the dataset that are among the
  specification's kept column names (which are the columns of the result, in the
  dataset's order).
\<close>

theorem calculate_actual_30min_last:
  assumes "''periodType'' \<in> set (columns df)" and "''periodSource'' \<in> set (columns df)"
    and "filter matching_30min (rows df) \<noteq> []"
  shows "calculate_actual_30min spec df =
           Inr \<lparr>columns = columns_intersection (columns df) (get_column_names (field_map spec)),
                rows = [project_row (columns_intersection (columns df) (get_column_names (field_map spec)))
                          (last (filter matching_30min (rows df)))]\<rparr>"
proof -
  let ?cols = "columns_intersection (columns df) (get_column_names (field_map spec))"
  let ?out = "loc df (map (\<lambda>(a, b). a = Str ''ACTUAL'' \<and> b = Str ''30MIN'')
                (zip (map (\<lambda>r. cell_of r ''periodType'') (rows df))
                     (map (\<lambda>r. cell_of r ''periodSource'') (rows df)))) ?cols"
  have m: "(\<lambda>r. cell_of r ''periodType'' = Str ''ACTUAL'' \<and> cell_of r ''periodSource'' = Str ''30MIN'')
             = matching_30min"
    by (rule ext) (simp add: matching_30min_def)
  have out: "?out = \<lparr>columns = ?cols, rows = map (project_row ?cols) (filter matching_30min (rows df))\<rparr>"
    using loc_two_columns [of df "\<lambda>a b. a = Str ''ACTUAL'' \<and> b = Str ''30MIN''"
        "\<lambda>r. cell_of r ''periodType''" "\<lambda>r. cell_of r ''periodSource''" ?cols]
    by (simp add: m)
  have "calculate_actual_30min spec df = iloc_last ?out"
    using assms(1,2) by (simp add: calculate_actual_30min_def getattr_col_def spec_column_names_def)
  also have "\<dots> = Inr \<lparr>columns = ?cols,
                       rows = [project_row ?cols (last (filter matching_30min (rows df)))]\<rparr>"
    using assms(3) by (simp add: out iloc_last_def last_map)
  finally show ?thesis .
qed

lemma calculate_actual_30min_example_hyps:
  "''periodType'' \<in> set (columns \<lparr>columns = [''periodType'', ''periodSource'', ''region''],
       rows = [(0, [(''periodType'', Str ''ACTUAL''), (''periodSource'', Str ''30MIN''), (''region'', Str ''VIC'')]),
               (1, [(''periodType'', Str ''ACTUAL''), (''periodSource'', Str ''30MIN''), (''region'', Str ''NSW'')]),
               (2, [(''periodType'', Str ''FORECAST''), (''periodSource'', Str ''30MIN''), (''region'', Null :: unit cell)])]\<rparr>)
   \<and> ''periodSource'' \<in> set (columns \<lparr>columns = [''periodType'', ''periodSource'', ''region''],
       rows = [(0, [(''periodType'', Str ''ACTUAL''), (''periodSource'', Str ''30MIN''), (''region'', Str ''VIC'')]),
               (1, [(''periodType'', Str ''ACTUAL''), (''periodSource'', Str ''30MIN''), (''region'', Str ''NSW'')]),
               (2, [(''periodType'', Str ''FORECAST''), (''periodSource'', Str ''30MIN''), (''region'', Null :: unit cell)])]\<rparr>)
   \<and> filter matching_30min (rows \<lparr>columns = [''periodType'', ''periodSource'', ''region''],
       rows = [(0, [(''periodType'', Str ''ACTUAL''), (''periodSource'', Str ''30MIN''), (''region'', Str ''VIC'')]),
               (1, [(''periodType'', Str ''ACTUAL''), (''periodSource'', Str ''30MIN''), (''region'', Str ''NSW'')]),
               (2, [(''periodType'', Str ''FORECAST''), (''periodSource'', Str ''30MIN''), (''region'', Null :: unit cell)])]\<rparr>)
       = [(0, [(''periodType'', Str ''ACTUAL''), (''periodSource'', Str ''30MIN''), (''region'', Str ''VIC'')]),
          (1, [(''periodType'', Str ''ACTUAL''), (''periodSource'', Str ''30MIN''), (''region'', Str ''NSW'')])]"
  by code_simp

theorem calculate_actual_30min_last_witness:
  "calculate_actual_30min
     \<lparr>field_map = [FieldMap1 ''region'' :: unit FieldMap], table_name = ''t'', primary_key = None,
      extra_sql = None\<rparr>
     \<lparr>columns = [''periodType'', ''periodSource'', ''region''],
      rows = [(0, [(''periodType'', Str ''ACTUAL''), (''periodSource'', Str ''30MIN''), (''region'', Str ''VIC'')]),
              (1, [(''periodType'', Str ''ACTUAL''), (''periodSource'', Str ''30MIN''), (''region'', Str ''NSW'')]),
              (2, [(''periodType'', Str ''FORECAST''), (''periodSource'', Str ''30MIN''), (''region'', Null :: unit cell)])]\<rparr>
   = Inr \<lparr>columns = [''region''], rows = [(1, [(''region'', Str ''NSW'')])]\<rparr>"
proof -
  let ?df = "\<lparr>columns = [''periodType'', ''periodSource'', ''region''],
      rows = [(0, [(''periodType'', Str ''ACTUAL''), (''periodSource'', Str ''30MIN''), (''region'', Str ''VIC'')]),
              (1, [(''periodType'', Str ''ACTUAL''), (''periodSource'', Str ''30MIN''), (''region'', Str ''NSW'')]),
              (2, [(''periodType'', Str ''FORECAST''), (''periodSource'', Str ''30MIN''), (''region'', Null :: unit cell)])]\<rparr>"
  let ?spec = "\<lparr>field_map = [FieldMap1 ''region'' :: unit FieldMap], table_name = ''t'',
      primary_key = None, extra_sql = None\<rparr>"
  note h = calculate_actual_30min_example_hyps
  have h3: "filter matching_30min (rows ?df) \<noteq> []"
    using h by simp
  note run = calculate_actual_30min_last [OF h [THEN conjunct1] h [THEN conjunct2, THEN conjunct1] h3,
      of ?spec]
  have "Inr \<lparr>columns = columns_intersection (columns ?df) (get_column_names (field_map ?spec)),
              rows = [project_row (columns_intersection (columns ?df) (get_column_names (field_map ?spec)))
                        (last (filter matching_30min (rows ?df)))]\<rparr>
        = (Inr \<lparr>columns = [''region''], rows = [(1, [(''region'', Str ''NSW'')])]\<rparr>
             :: py_error + unit DataFrame)"
    by code_simp
  with run show ?thesis
    by (rule trans)
qed

section \<open>Lemmas on do_calculate and the loops\<close>

lemma do_calculate_Exc:
  assumes "calculate self = Some f" and "f (TableSpecData.truncate self) ts = Inl (Exc e)"
  shows "do_calculate self ts lg =
           (Inr None, lg @ [(ERROR, ''calculation exception: '' @ table_name self)])"
  using assms by (simp add: do_calculate_def)

lemma do_calculate_never_Exc: "fst (do_calculate self ts lg) \<noteq> Inl (Exc e)"
  by (auto simp: do_calculate_def split: option.splits sum.splits py_raise.splits)

text \<open>
  C7.  When the derivation of a specification raises an \<^verbatim>\<open>Exception\<close>,
  \<open>do_calculate\<close> returns \<open>None\<close> (no rows) and has added to the log one record at
  level \<^verbatim>\<open>ERROR\<close> that names the table; whatever the derivation does, \<open>do_calculate\<close>
  never raises an \<^verbatim>\<open>Exception\<close>.  In both consumers the loop over the registry then
  logs the table as empty and goes on with the remaining specifications, on the
  state it had, as if the table had not been there.
\<close>

theorem do_calculate_fail_soft:
  assumes "calculate self = Some f" and "f (TableSpecData.truncate self) ts = Inl (Exc e)"
  shows "do_calculate self ts lg =
           (Inr None, lg @ [(ERROR, ''calculation exception: '' @ table_name self)])
       \<and> (\<forall>e' ts' lg'. fst (do_calculate self ts' lg') \<noteq> Inl (Exc e'))
       \<and> write_tables execute executemany (self # specs) ts st =
           write_tables execute executemany specs ts
             (st\<lparr>pg_log := pg_log st @ [(ERROR, ''calculation exception: '' @ table_name self),
                                          (INFO, ''table: '' @ table_name self @ '' is empty'')]\<rparr>)
       \<and> consume_tables ext encode publish topic_template (self # specs) ts mst =
           consume_tables ext encode publish topic_template specs ts
             (mst\<lparr>mq_log := mq_log mst @ [(ERROR, ''calculation exception: '' @ table_name self),
                                           (INFO, ''mqtt table: '' @ table_name self @ '' is empty'')]\<rparr>)"
proof (intro conjI allI)
  show "do_calculate self ts lg =
           (Inr None, lg @ [(ERROR, ''calculation exception: '' @ table_name self)])"
    by (rule do_calculate_Exc [OF assms])
  show "fst (do_calculate self ts' lg') \<noteq> Inl (Exc e')" for e' ts' lg'
    by (rule do_calculate_never_Exc)
  show "write_tables execute executemany (self # specs) ts st =
           write_tables execute executemany specs ts
             (st\<lparr>pg_log := pg_log st @ [(ERROR, ''calculation exception: '' @ table_name self),
                                          (INFO, ''table: '' @ table_name self @ '' is empty'')]\<rparr>)"
    by (simp add: do_calculate_Exc [OF assms] log_add_def)
  show "consume_tables ext encode publish topic_template (self # specs) ts mst =
           consume_tables ext encode publish topic_template specs ts
             (mst\<lparr>mq_log := mq_log mst @ [(ERROR, ''calculation exception: '' @ table_name self),
                                           (INFO, ''mqtt table: '' @ table_name self @ '' is empty'')]\<rparr>)"
    by (simp add: do_calculate_Exc [OF assms] mq_log_add_def)
qed

lemma raising_example:
  "raising calculate_actual_30min
     (TableSpecData.truncate
        \<lparr>field_map = [FieldMap1 ''region'' :: unit FieldMap], table_name = ''t'', primary_key = None,
         extra_sql = None,
         calculate = Some (raising calculate_actual_30min
                      :: unit TableSpecData \<Rightarrow> unit DataFrame \<Rightarrow> py_raise + unit DataFrame)\<rparr>)
     (\<lparr>columns = [''region''], rows = [(0, [(''region'', Str ''VIC'')])]\<rparr> :: unit DataFrame)
   = Inl (Exc (AttributeError ''periodType''))"
  by (simp add: raising_def calculate_actual_30min_def getattr_col_def)

theorem do_calculate_fail_soft_witness:
  "do_calculate
     \<lparr>field_map = [FieldMap1 ''region'' :: unit FieldMap], table_name = ''t'', primary_key = None,
      extra_sql = None,
      calculate = Some (raising calculate_actual_30min
                   :: unit TableSpecData \<Rightarrow> unit DataFrame \<Rightarrow> py_raise + unit DataFrame)\<rparr>
     \<lparr>columns = [''region''], rows = [(0, [(''region'', Str ''VIC'')])]\<rparr> []
   = (Inr None, [(ERROR, ''calculation exception: t'')])"
proof -
  let ?spec = "\<lparr>field_map = [FieldMap1 ''region'' :: unit FieldMap], table_name = ''t'',
      primary_key = None, extra_sql = None,
      calculate = Some (raising calculate_actual_30min
                   :: unit TableSpecData \<Rightarrow> unit DataFrame \<Rightarrow> py_raise + unit DataFrame)\<rparr>"
  have c: "calculate ?spec = Some (raising calculate_actual_30min)"
    by simp
  note s1 = do_calculate_fail_soft [where self = ?spec and f = "raising calculate_actual_30min" and lg = "[]", OF c]
  note s2 = s1 [OF raising_example]
  note soft = s2 [THEN conjunct1]
  have "[] @ [(ERROR, ''calculation exception: '' @ table_name ?spec)] =
          [(ERROR, ''calculation exception: t'')]"
    by simp
  with soft show ?thesis
    by (simp only:)
qed

section \<open>Construction of a table specification\<close>

lemma actual_30min_distinct:
  "distinct (get_in_names actual_30min_fields) \<and> distinct (get_column_names actual_30min_fields)"
  by (simp add: get_in_names_def get_column_names_def kept_def effective_name_def
      actual_30min_fields_def FieldMap1_def FieldMap2_def TIME_FIELD_def)

lemma actual_5min_distinct:
  "distinct (get_in_names actual_5min_fields) \<and> distinct (get_column_names actual_5min_fields)"
  by (simp add: get_in_names_def get_column_names_def kept_def effective_name_def
      actual_5min_fields_def FieldMap1_def FieldMap2_def TIME_FIELD_def)

lemma forecast_distinct:
  "distinct (get_in_names forecast_fields) \<and> distinct (get_column_names forecast_fields)"
  by (simp add: get_in_names_def get_column_names_def kept_def effective_name_def
      forecast_fields_def FieldMap1_def FieldMap2_def TIME_FIELD_def)

lemma forecast_rolling_distinct:
  "distinct (get_in_names forecast_rolling_fields) \<and> distinct (get_column_names forecast_rolling_fields)"
  by (simp add: get_in_names_def get_column_names_def kept_def effective_name_def
      forecast_rolling_fields_def FieldMap1_def FieldMap2_def TIME_FIELD_def)

text \<open>
  C3, as the code has it.  Constructing a table specification validates nothing and
  never fails: for every field list, with or without repeated names, the
  specification is built with the fields as given, and its source names and column
  names are those of the kept fields in declaration order, repetitions included.
  The four specifications of the registry have pairwise distinct kept source names
  and pairwise distinct effective column names.
\<close>

theorem TableSpec_init_no_validation:
  "(\<exists>s. TableSpec_init fm tn pk calc xsql = Inr s \<and> field_map s = fm \<and> table_name s = tn
        \<and> spec_in_names (TableSpecData.truncate s) = map in_name (kept fm)
        \<and> spec_column_names (TableSpecData.truncate s) = map effective_name (kept fm))
   \<and> list_all (\<lambda>s. distinct (get_in_names (field_map s)) \<and> distinct (get_column_names (field_map s)))
        (table_specs m2a)"
proof
  show "\<exists>s. TableSpec_init fm tn pk calc xsql = Inr s \<and> field_map s = fm \<and> table_name s = tn
        \<and> spec_in_names (TableSpecData.truncate s) = map in_name (kept fm)
        \<and> spec_column_names (TableSpecData.truncate s) = map effective_name (kept fm)"
    by (simp add: TableSpec_init_def spec_in_names_def spec_column_names_def get_in_names_def
        get_column_names_def TableSpecData.truncate_def)
  show "list_all (\<lambda>s. distinct (get_in_names (field_map s)) \<and> distinct (get_column_names (field_map s)))
        (table_specs m2a)"
    by (simp add: table_specs_def actual_30min_distinct actual_5min_distinct forecast_distinct
        forecast_rolling_distinct)
qed

text \<open>
  The claim as stated fails: a specification with the source name \<open>a\<close> twice is
  constructed, both name lists repeat \<open>a\<close>, and the DDL composed from it declares the
  column twice.
\<close>

theorem TableSpec_init_duplicates_accepted:
  "TableSpec_init [FieldMap1 ''a'', FieldMap1 ''a'' :: unit FieldMap] ''t'' None
       (None :: (unit TableSpecData \<Rightarrow> unit \<Rightarrow> py_raise + unit) option) None
     = Inr \<lparr>field_map = [FieldMap1 ''a'', FieldMap1 ''a''], table_name = ''t'', primary_key = None,
            extra_sql = None, calculate = None\<rparr>
   \<and> get_in_names [FieldMap1 ''a'', FieldMap1 ''a'' :: unit FieldMap] = [''a'', ''a'']
   \<and> get_column_names [FieldMap1 ''a'', FieldMap1 ''a'' :: unit FieldMap] = [''a'', ''a'']
   \<and> compose_create (\<lambda>_ _. Inl TypeError) ''t'' [FieldMap1 ''a'', FieldMap1 ''a'' :: unit FieldMap] None None
       = Inr (''CREATE TABLE IF NOT EXISTS t ('' @ NL @ ''a VARCHAR,'' @ NL @ ''a VARCHAR'' @ NL @ '');'')"
proof (intro conjI)
  show "TableSpec_init [FieldMap1 ''a'', FieldMap1 ''a'' :: unit FieldMap] ''t'' None
       (None :: (unit TableSpecData \<Rightarrow> unit \<Rightarrow> py_raise + unit) option) None
     = Inr \<lparr>field_map = [FieldMap1 ''a'', FieldMap1 ''a''], table_name = ''t'', primary_key = None,
            extra_sql = None, calculate = None\<rparr>"
    by (simp add: TableSpec_init_def)
  show "get_in_names [FieldMap1 ''a'', FieldMap1 ''a'' :: unit FieldMap] = [''a'', ''a'']"
    by code_simp
  show "get_column_names [FieldMap1 ''a'', FieldMap1 ''a'' :: unit FieldMap] = [''a'', ''a'']"
    by code_simp
  show "compose_create (\<lambda>_ _. Inl TypeError) ''t'' [FieldMap1 ''a'', FieldMap1 ''a'' :: unit FieldMap] None None
       = Inr (''CREATE TABLE IF NOT EXISTS t ('' @ NL @ ''a VARCHAR,'' @ NL @ ''a VARCHAR'' @ NL @ '');'')"
    by code_simp
qed

section \<open>The lead time of the rolling forecast\<close>

lemma td_seconds_range: "0 \<le> td_seconds ns \<and> td_seconds ns < 86400"
  by (simp add: td_seconds_def)

lemma td_seconds_within_day:
  "0 \<le> ns \<Longrightarrow> ns < 86400 * 1000000000 \<Longrightarrow> td_seconds ns = ns div 1000000000"
  by (simp add: td_seconds_def div_less_iff_less_mult [symmetric] zdiv_mono1 pos_imp_zdiv_nonneg_iff)

text \<open>
  C2, at a failing input.  A fetch made at time 0 holds two forecast rows, for the
  periods 1800 s and 88200 s (one day and 30 minutes) later.  The second row has
  \<open>P > T\<close> and \<open>P - T\<close> = 88200 s, but its \<open>forecast_lead\<close> is 1800, the same as
  the first row's: \<^verbatim>\<open>.dt.seconds\<close> is the seconds component of the difference, which
  leaves out whole days.
\<close>

theorem calculate_forecast_rolling_drops_days:
  "calculate_forecast_rolling id
     \<lparr>field_map = (forecast_rolling_fields :: unit FieldMap list),
      table_name = TABLE_RAW_FORECAST_ROLLING, primary_key = Some ''period, forecast_lead'',
      extra_sql = None\<rparr>
     \<lparr>columns = [''periodType'', ''period'', ''forecastedAt''],
      rows = [(0, [(''periodType'', Str ''FORECAST''), (''period'', Time 1800000000000),
                   (''forecastedAt'', Time 0)]),
              (1, [(''periodType'', Str ''FORECAST''), (''period'', Time 88200000000000),
                   (''forecastedAt'', Time 0)])]\<rparr>
   = Inr \<lparr>columns = [''period'', ''forecastedAt'', ''forecast_lead''],
          rows = [(0, [(''period'', Time 1800000000000), (''forecastedAt'', Time 0),
                       (''forecast_lead'', Num 1800 :: unit cell)]),
                  (1, [(''period'', Time 88200000000000), (''forecastedAt'', Time 0),
                       (''forecast_lead'', Num 1800)])]\<rparr>"
  by code_simp

section \<open>Write failures in the Postgres loop\<close>

text \<open>
  The two paths, for any registry and connection.  A failure of \<^verbatim>\<open>execute\<close> on the
  single-row path is logged and the loop goes on with the remaining specifications;
  a failure of \<^verbatim>\<open>executemany\<close> on the multi-row path leaves the loop.
\<close>

lemma write_single_error_continues:
  assumes "do_calculate spec ts (pg_log st) = (Inr (Some df), lg)"
    and "\<not> df_empty df" and "\<not> df_len df > 1"
    and "to_dict (squeeze (frame_dropna df)) = Inr data"
    and "key_names (map fst data) = Inr flds"
    and "execute (conn st) (compose_insert flds (table_name spec) None) (map snd data)
           = (DbException e, c)"
  shows "write_tables execute executemany (spec # specs) ts st =
           write_tables execute executemany specs ts
             (st\<lparr>conn := c,
                pg_log := lg @ [(INFO, ''postgres: table: '' @ table_name spec @ '' len: '' @ str_nat (df_len df)),
                               (ERROR, ''postgres failed to write '' @ table_name spec @ '': ''
                                         @ compose_insert flds (table_name spec) None),
                               (INFO, ''PostgresWriter: '' @ table_name spec @ '' written'')],
                ins_sql := Some (compose_insert flds (table_name spec) None)\<rparr>)"
  using assms
  by (cases st) (simp add: write_single_def single_row_handler_def log_add_def Let_def)

lemma write_batch_error_aborts:
  assumes "do_calculate spec ts (pg_log st) = (Inr (Some df), lg)"
    and "\<not> df_empty df" and "df_len df > 1"
    and "key_names (map fst (hd (to_records df))) = Inr flds"
    and "executemany (conn st) (compose_insert flds (table_name spec) None)
           (map (map snd) (to_records df)) = (DbException e, c)"
  shows "write_tables execute executemany (spec # specs) ts st =
           (Inl (Exc e),
            st\<lparr>conn := c,
               pg_log := lg @ [(INFO, ''postgres: table: '' @ table_name spec @ '' len: '' @ str_nat (df_len df)),
                              (INFO, ''table: '' @ table_name spec @ '' has '' @ str_nat (df_len df) @ '' rows''),
                              (ERROR, ''PostgresWriter: failed to write: '' @ QUOTE @ table_name spec @ QUOTE)],
               ins_sql := Some (compose_insert flds (table_name spec) None)\<rparr>)"
  using assms
  by (cases st) (simp add: write_batch_def log_add_def Let_def)

text \<open>
  C4, at a failing input.  In the example cycle the second table of the registry,
  the fine actuals, gets two rows.  When \<^verbatim>\<open>executemany\<close> fails there with an error
  that is not a uniqueness violation, the loop ends with that error after the outer
  handler's log record: only the first table was written, the two forecast tables
  are never visited.  When instead every single-row \<^verbatim>\<open>execute\<close> fails, the loop
  runs to its end and the multi-row table is written.
\<close>

theorem write_tables_batch_error_aborts_cycle:
  "write_tables db_ok db_fail
     (table_specs id :: (unit, unit DataFrame, unit DataFrame) TableSpec list) example_cycle
     \<lparr>conn = [], pg_log = [], ins_sql = None\<rparr>
   = (Inl (Exc (OtherException ''PostgresError'')),
      \<lparr>conn = [(''INSERT INTO amber_actual_30min (event_time, period) values ($1, $2)'',
                 [Value (Time 7), Value (Time 1)])],
       pg_log = [(INFO, ''postgres: table: amber_actual_30min len: 1''),
                 (INFO, ''PostgresWriter: amber_actual_30min written''),
                 (INFO, ''postgres: table: amber_actual_5min len: 2''),
                 (INFO, ''table: amber_actual_5min has 2 rows''),
                 (ERROR, ''PostgresWriter: failed to write: '' @ QUOTE @ ''amber_actual_5min'' @ QUOTE)],
       ins_sql = Some ''INSERT INTO amber_actual_5min (event_time, period) values ($1, $2)''\<rparr>)
   \<and> fst (write_tables db_fail db_ok
          (table_specs id :: (unit, unit DataFrame, unit DataFrame) TableSpec list) example_cycle
          \<lparr>conn = [], pg_log = [], ins_sql = None\<rparr>) = Inr 0
   \<and> map fst (conn (snd (write_tables db_fail db_ok
          (table_specs id :: (unit, unit DataFrame, unit DataFrame) TableSpec list) example_cycle
          \<lparr>conn = [], pg_log = [], ins_sql = None\<rparr>)))
       = [''INSERT INTO amber_actual_5min (event_time, period) values ($1, $2)'']"
  by code_simp

section \<open>The single row handed to a sink\<close>

text \<open>
  C5, at a failing input.  The derived frame has one row whose \<open>rooftopSolar\<close> is
  null.  The MQTT consumer squeezes the row to a series and drops the null entry:
  its mapping has the two other columns with their values.  The Postgres consumer
  calls \<^verbatim>\<open>dropna\<close> on the frame first, which drops the whole row; squeezing the
  empty frame leaves a frame, and its \<^verbatim>\<open>to_dict\<close> maps every column, the null one
  included, to an empty dictionary: the insert names all three columns and is
  executed with three empty dictionaries as values.
\<close>

theorem write_single_null_cell:
  "(case dropna (squeeze example_row) of Inl e \<Rightarrow> Inl e | Inr s \<Rightarrow> to_dict s)
     = Inr [(ColKey ''event_time'', Value (Time 7)), (ColKey ''region'', Value (Str ''VIC''))]
   \<and> to_dict (squeeze (frame_dropna example_row))
     = Inr [(ColKey ''event_time'', ColumnDict []), (ColKey ''region'', ColumnDict []),
            (ColKey ''rooftopSolar'', ColumnDict [])]
   \<and> write_single db_ok ''t'' example_row \<lparr>conn = [], pg_log = [], ins_sql = None\<rparr>
     = (None,
        \<lparr>conn = [(''INSERT INTO t (event_time, region, rooftopSolar) values ($1, $2, $3)'',
                   [ColumnDict [], ColumnDict [], ColumnDict []])],
         pg_log = [(INFO, ''PostgresWriter: t written'')],
         ins_sql = Some ''INSERT INTO t (event_time, region, rooftopSolar) values ($1, $2, $3)''\<rparr>)"
  by code_simp

end
